theory Spec2Isabelle
  imports Complex_Main
begin

section \<open>EZLockIn: the study timer's cycle engine and session logger\<close>

text \<open>
  A shallow embedding of \<^verbatim>\<open>src/study_timer_gui.py\<close>: the class \<^verbatim>\<open>StudyLogger\<close> and the
  class \<^verbatim>\<open>StudyTimerLogic\<close>, with the parts of Qt and of the Python library they call.
  Mutation is explicit state passing on one record; the emitted Qt signals, the cue
  requests and the console messages are appended to an emission list in the order the
  code produces them. The state names of the source (\<^verbatim>\<open>"stopped"\<close>, \<^verbatim>\<open>"studying"\<close>, ...) are the
  constructors of a datatype, and so are the keys of the sound table.
\<close>

subsection \<open>Data\<close>

datatype cycle_state = stopped | studying | short_breaking | long_breaking | long_break_finished

datatype sound_key = start_study | start_short_break | start_long_break | end_long_break

datatype error = ValueError | TypeError | OverflowError | IOError | FileNotFoundError

text \<open>
  The display texts of the source are string literals with emoji; here each literal is a
  constructor. \<open>StudyingText n\<close> is the f-string with the round number \<open>n\<close>.
\<close>

datatype status_text =
    IdleText
  | StudyingText int
  | ShortBreakText
  | LongBreakText
  | PausedText
  | LongBreakEndedText
  | UnknownText

record datetime =
  year :: nat
  month :: nat
  day :: nat
  hour :: nat
  minute :: nat
  second :: nat

text \<open>One row of \<^verbatim>\<open>study_log.csv\<close>, in the order of the header.\<close>

record log_row =
  row_start_time :: string
  row_end_time :: string
  row_net_duration_minutes :: rat
  row_date :: string
  row_day_of_week :: string

datatype emission =
    StateChanged status_text cycle_state
  | TimeUpdated int
  | NotificationRequested string string
  | PlaySound sound_key
  | Print string

text \<open>
  The configuration dictionary. Every key is read with \<^verbatim>\<open>config[...]\<close> except
  \<^verbatim>\<open>total_study_time\<close>, which is read with \<^verbatim>\<open>config.get("total_study_time", 0)\<close>.
\<close>

record config =
  study_time_min :: int
  study_time_max :: int
  short_break_duration :: int
  long_break_threshold :: int
  long_break_duration :: int
  cfg_total_study_time :: "int option"

text \<open>
  The fields of \<^verbatim>\<open>StudyTimerLogic\<close>, the single-shot \<^verbatim>\<open>QTimer\<close> it owns (whether it is
  active, the milliseconds left until it fires, and its dynamic property
  \<^verbatim>\<open>"duration"\<close>, which is \<^verbatim>\<open>None\<close> until set), the data rows of the logger's file and
  the outputs produced so far.
\<close>

record engine =
  is_paused :: bool
  time_remaining_on_pause :: int
  timer_active :: bool
  timer_remaining :: int
  timer_duration :: "int option"
  total_study_time :: int
  current_cycle_study_time :: int
  current_session_start_time :: "datetime option"
  current_session_duration :: int
  cycle_count :: int
  current_state :: cycle_state
  log_rows :: "log_row list"
  outputs :: "emission list"

subsection \<open>Library functions the source calls\<close>

text \<open>
  \<^verbatim>\<open>random.randint(a, b)\<close> returns some integer \<open>N\<close> with \<open>a \<le> N \<le> b\<close> and raises
  \<^verbatim>\<open>ValueError\<close> on an empty range. The argument \<open>r\<close> is the entropy of the call: every
  value of the range is the result for some \<open>r\<close>.
\<close>

definition randint :: "int \<Rightarrow> int \<Rightarrow> nat \<Rightarrow> error + int" where
  "randint a b r = (if b < a then Inl ValueError else Inr (a + int r mod (b - a + 1)))"

text \<open>
  \<^verbatim>\<open>round(x, 2)\<close> on the exact quotient: the nearest multiple of 1/100, a tie going to the
  even one. The binary representation of Python's floats is not modelled.
\<close>

definition round2 :: "rat \<Rightarrow> rat" where
  "round2 x =
     (let y = x * 100; f = \<lfloor>y\<rfloor>; d = y - of_int f
      in of_int (if d < 1 / 2 then f else if 1 / 2 < d then f + 1
                 else if even f then f else f + 1) / 100)"

text \<open>The calendar arithmetic of \<^verbatim>\<open>datetime\<close>: the proleptic Gregorian ordinal and the weekday.\<close>

definition is_leap :: "nat \<Rightarrow> bool" where
  "is_leap y = (y mod 4 = 0 \<and> (y mod 100 \<noteq> 0 \<or> y mod 400 = 0))"

definition days_before_year :: "nat \<Rightarrow> nat" where
  "days_before_year y = (let p = y - 1 in p * 365 + p div 4 - p div 100 + p div 400)"

definition days_before_month :: "nat \<Rightarrow> nat \<Rightarrow> nat" where
  "days_before_month y m =
     [0, 0, 31, 59, 90, 120, 151, 181, 212, 243, 273, 304, 334] ! (m mod 13)
       + (if 2 < m \<and> is_leap y then 1 else 0)"

definition toordinal :: "datetime \<Rightarrow> nat" where
  "toordinal dt = days_before_year (year dt) + days_before_month (year dt) (month dt) + day dt"

definition weekday :: "datetime \<Rightarrow> nat" where
  "weekday dt = (toordinal dt + 6) mod 7"

definition digit :: "nat \<Rightarrow> char" where
  "digit n = ''0123456789'' ! (n mod 10)"

definition pad2 :: "nat \<Rightarrow> string" where
  "pad2 n = [digit (n div 10), digit n]"

definition pad4 :: "nat \<Rightarrow> string" where
  "pad4 n = [digit (n div 1000), digit (n div 100), digit (n div 10), digit n]"

text \<open>
  \<^verbatim>\<open>strftime('%Y-%m-%d')\<close>, \<^verbatim>\<open>strftime('%Y-%m-%d %H:%M:%S')\<close> and \<^verbatim>\<open>strftime('%A')\<close> (the
  English weekday names), for years of four digits.
\<close>

definition strftime_date :: "datetime \<Rightarrow> string" where
  "strftime_date dt = pad4 (year dt) @ ''-'' @ pad2 (month dt) @ ''-'' @ pad2 (day dt)"

definition strftime_datetime :: "datetime \<Rightarrow> string" where
  "strftime_datetime dt =
     strftime_date dt @ '' '' @ pad2 (hour dt) @ '':'' @ pad2 (minute dt) @ '':'' @ pad2 (second dt)"

definition strftime_weekday :: "datetime \<Rightarrow> string" where
  "strftime_weekday dt =
     [''Monday'', ''Tuesday'', ''Wednesday'', ''Thursday'', ''Friday'', ''Saturday'', ''Sunday'']
       ! weekday dt"

text \<open>
  Opening the log file for appending and writing one row. \<open>ok\<close> is what the file system
  does at this call: the row is written, or \<^verbatim>\<open>open\<close> raises \<^verbatim>\<open>IOError\<close>.
\<close>

definition csv_append :: "bool \<Rightarrow> log_row list \<Rightarrow> log_row \<Rightarrow> error + log_row list" where
  "csv_append ok rows row = (if ok then Inr (rows @ [row]) else Inl IOError)"

subsection \<open>StudyLogger\<close>

definition make_row :: "datetime \<Rightarrow> datetime \<Rightarrow> int \<Rightarrow> log_row" where
  "make_row start_time end_time net_duration_seconds =
     \<lparr> row_start_time = strftime_datetime start_time,
       row_end_time = strftime_datetime end_time,
       row_net_duration_minutes = round2 (of_int net_duration_seconds / 60),
       row_date = strftime_date start_time,
       row_day_of_week = strftime_weekday start_time \<rparr>"

text \<open>
  \<^verbatim>\<open>log_session\<close>: the result is the file's rows and what was printed. A \<^verbatim>\<open>datetime\<close> is
  always true in a boolean context, \<^verbatim>\<open>None\<close> is false.
\<close>

definition log_session ::
  "bool \<Rightarrow> datetime option \<Rightarrow> datetime option \<Rightarrow> int \<Rightarrow> log_row list \<Rightarrow> log_row list \<times> emission list"
where
  "log_session ok start_time end_time net_duration_seconds rows =
     (case start_time of
        None \<Rightarrow> (rows, [])
      | Some st \<Rightarrow>
          (case end_time of
             None \<Rightarrow> (rows, [])
           | Some en \<Rightarrow>
               if \<not> 0 < net_duration_seconds then (rows, [])
               else (case csv_append ok rows (make_row st en net_duration_seconds) of
                       Inr rows' \<Rightarrow> (rows', [])
                     | Inl e \<Rightarrow> (rows, [Print ''Error: Failed to write log'']))))"

subsection \<open>QTimer and the signals\<close>

definition timer_stop :: "engine \<Rightarrow> engine" where
  "timer_stop s = s\<lparr>timer_active := False\<rparr>"

text \<open>
  The arguments and results of Qt are C integers of 32 bits. A Python integer passed to
  a method of Qt is converted: outside the range the call raises \<^verbatim>\<open>OverflowError\<close>. An
  integer carried by a signal is reduced to the range instead.
\<close>

definition c_int :: "int \<Rightarrow> error + int" where
  "c_int n = (if n < - 2147483648 \<or> 2147483647 < n then Inl OverflowError else Inr n)"

definition c_int_wrapped :: "int \<Rightarrow> int" where
  "c_int_wrapped n = (n + 2147483648) mod 4294967296 - 2147483648"

text \<open>
  \<^verbatim>\<open>QTimer.start(msec)\<close>: the delay is converted to a C integer; Qt replaces a negative
  delay by 1 ms and arms the timer.
\<close>

definition timer_start :: "int \<Rightarrow> engine \<Rightarrow> error + engine" where
  "timer_start msec s =
     (case c_int msec of
        Inl e \<Rightarrow> Inl e
      | Inr m \<Rightarrow> Inr (s\<lparr>timer_active := True, timer_remaining := (if m < 0 then 1 else m)\<rparr>))"

text \<open>
  \<^verbatim>\<open>QTimer.remainingTime()\<close>: a C integer, the milliseconds left of an active timer, 0 if
  it is overdue, and -1 for an inactive timer.
\<close>

definition remainingTime :: "engine \<Rightarrow> int" where
  "remainingTime s =
     (if timer_active s then max 0 (min 2147483647 (timer_remaining s)) else - 1)"

definition emit :: "emission \<Rightarrow> engine \<Rightarrow> engine" where
  "emit out s = s\<lparr>outputs := outputs s @ [out]\<rparr>"

text \<open>
  \<^verbatim>\<open>_play_sound\<close>: the request to play the cue of a key. Construction has checked that
  every configured sound file exists; what the mixer does with the file is outside the
  model.
\<close>

definition play_sound :: "sound_key \<Rightarrow> engine \<Rightarrow> engine" where
  "play_sound sound_key s = emit (PlaySound sound_key) s"

subsection \<open>StudyTimerLogic\<close>

definition clear_current_session :: "engine \<Rightarrow> engine" where
  "clear_current_session s =
     s\<lparr>current_session_start_time := None, current_session_duration := 0\<rparr>"

definition reset_cycle :: "engine \<Rightarrow> engine" where
  "reset_cycle s =
     (let s1 = timer_stop s;
          s2 = s1\<lparr>cycle_count := 0, current_state := stopped, is_paused := False\<rparr>;
          s3 = clear_current_session s2;
          s4 = s3\<lparr>current_cycle_study_time := 0\<rparr>;
          s5 = emit (StateChanged IdleText (current_state s4)) s4
      in emit (TimeUpdated (c_int_wrapped (total_study_time s5))) s5)"

definition reset_all :: "engine \<Rightarrow> engine" where
  "reset_all s =
     (let s1 = reset_cycle (s\<lparr>total_study_time := 0\<rparr>)
      in emit (TimeUpdated (c_int_wrapped (total_study_time s1))) s1)"

text \<open>
  \<^verbatim>\<open>_run_study_cycle\<close>, \<^verbatim>\<open>_run_short_break_cycle\<close>, \<^verbatim>\<open>_run_long_break_cycle\<close>, \<^verbatim>\<open>_resume\<close>,
  \<^verbatim>\<open>_clear_current_session\<close> and \<^verbatim>\<open>_play_sound\<close> are written without the leading
  underscore. \<open>now\<close> is what \<^verbatim>\<open>datetime.now()\<close> returns and \<open>r\<close> the entropy of the draw. An
  exception ends the slot, and with it the application: the result is the error alone.
\<close>

definition run_study_cycle :: "config \<Rightarrow> datetime \<Rightarrow> nat \<Rightarrow> engine \<Rightarrow> error + engine" where
  "run_study_cycle cfg now r s =
     (let s1 = s\<lparr>cycle_count := cycle_count s + 1, current_state := studying\<rparr>
      in case randint (study_time_min cfg) (study_time_max cfg) r of
           Inl e \<Rightarrow> Inl e
         | Inr study_duration \<Rightarrow>
             (let s2 = s1\<lparr>current_session_start_time := Some now,
                          current_session_duration := study_duration\<rparr>;
                  s3 = emit (StateChanged (StudyingText (cycle_count s2)) (current_state s2)) s2;
                  s4 = play_sound start_study s3;
                  s5 = s4\<lparr>timer_duration := Some study_duration\<rparr>
              in timer_start (study_duration * 1000) s5))"

definition run_short_break_cycle :: "config \<Rightarrow> engine \<Rightarrow> error + engine" where
  "run_short_break_cycle cfg s =
     (let s1 = s\<lparr>current_state := short_breaking\<rparr>;
          break_duration = short_break_duration cfg;
          s2 = emit (StateChanged ShortBreakText (current_state s1)) s1;
          s3 = emit (TimeUpdated (c_int_wrapped (total_study_time s2))) s2;
          s4 = play_sound start_short_break s3;
          s5 = s4\<lparr>timer_duration := Some 0\<rparr>
      in timer_start (break_duration * 1000) s5)"

definition run_long_break_cycle :: "config \<Rightarrow> engine \<Rightarrow> error + engine" where
  "run_long_break_cycle cfg s =
     (let s1 = s\<lparr>current_state := long_breaking\<rparr>;
          break_duration = long_break_duration cfg;
          s2 = emit (StateChanged LongBreakText (current_state s1)) s1;
          s3 = emit (TimeUpdated (c_int_wrapped (total_study_time s2))) s2;
          s4 = play_sound start_long_break s3;
          s5 = s4\<lparr>current_cycle_study_time := 0\<rparr>;
          s6 = s5\<lparr>timer_duration := Some 0\<rparr>
      in timer_start (break_duration * 1000) s6)"

text \<open>
  \<^verbatim>\<open>on_timer_timeout\<close>. \<open>now\<close> is what \<^verbatim>\<open>datetime.now()\<close> returns, \<open>ok\<close> what the file system
  does if a row is written, \<open>r\<close> the entropy if a duration is drawn. Adding \<^verbatim>\<open>None\<close> to an
  integer raises \<^verbatim>\<open>TypeError\<close>; starting the timer of the next phase can raise
  \<^verbatim>\<open>OverflowError\<close>.
\<close>

definition on_timer_timeout ::
  "config \<Rightarrow> datetime \<Rightarrow> bool \<Rightarrow> nat \<Rightarrow> engine \<Rightarrow> error + engine"
where
  "on_timer_timeout cfg now ok r s =
     (if current_state s = studying then
        (let s1 = (if current_session_start_time s \<noteq> None \<and> 0 < current_session_duration s
                   then (case log_session ok (current_session_start_time s) (Some now)
                                 (current_session_duration s) (log_rows s) of
                           (rows, printed) \<Rightarrow>
                             s\<lparr>log_rows := rows, outputs := outputs s @ printed\<rparr>)
                   else s);
             s2 = clear_current_session s1
         in case timer_duration s2 of
              None \<Rightarrow> Inl TypeError
            | Some study_duration \<Rightarrow>
                run_short_break_cycle cfg
                  (s2\<lparr>total_study_time := total_study_time s2 + study_duration,
                      current_cycle_study_time := current_cycle_study_time s2 + study_duration\<rparr>))
      else if current_state s = short_breaking then
        (if long_break_threshold cfg \<le> current_cycle_study_time s
         then run_long_break_cycle cfg s
         else run_study_cycle cfg now r s)
      else if current_state s = long_breaking then
        (let s1 = play_sound end_long_break s;
             s2 = s1\<lparr>current_state := long_break_finished\<rparr>;
             s3 = emit (StateChanged LongBreakEndedText (current_state s2)) s2
         in Inr (emit (NotificationRequested ''Break Finished''
                         ''Ready to start the next session?'') s3))
      else Inr s)"

definition load_persistent_time :: "int \<Rightarrow> engine \<Rightarrow> engine" where
  "load_persistent_time t s =
     (let s1 = s\<lparr>total_study_time := t\<rparr>
      in emit (TimeUpdated (c_int_wrapped (total_study_time s1))) s1)"

definition pause :: "engine \<Rightarrow> engine" where
  "pause s =
     (if timer_active s then
        (let s1 = s\<lparr>time_remaining_on_pause := remainingTime s\<rparr>;
             s2 = timer_stop s1;
             s3 = s2\<lparr>is_paused := True\<rparr>
         in emit (StateChanged PausedText (current_state s3)) s3)
      else s)"

definition resume :: "engine \<Rightarrow> error + engine" where
  "resume s =
     (if is_paused s then
        (case timer_start (time_remaining_on_pause s) s of
           Inl e \<Rightarrow> Inl e
         | Inr s1 \<Rightarrow>
             (let s2 = s1\<lparr>is_paused := False\<rparr>;
                  s3 = play_sound start_study s2;
                  original_state_text =
                    (if current_state s3 = studying then StudyingText (cycle_count s3)
                     else if current_state s3 = short_breaking then ShortBreakText
                     else if current_state s3 = long_breaking then LongBreakText
                     else UnknownText)
              in Inr (emit (StateChanged original_state_text (current_state s3)) s3)))
      else Inr s)"

definition start_or_resume :: "config \<Rightarrow> datetime \<Rightarrow> nat \<Rightarrow> engine \<Rightarrow> error + engine" where
  "start_or_resume cfg now r s =
     (if is_paused s then resume s
      else if current_state s = stopped \<or> current_state s = long_break_finished then
        (let s1 = s\<lparr>is_paused := False\<rparr>;
             s2 = (if current_state s1 = long_break_finished then reset_cycle s1 else s1)
         in if long_break_threshold cfg \<le> current_cycle_study_time s2
            then run_long_break_cycle cfg s2
            else run_study_cycle cfg now r s2)
      else Inr s)"

text \<open>\<^verbatim>\<open>stop\<close>: the timer is stopped and the mixer shut down.\<close>

definition stop :: "engine \<Rightarrow> engine" where
  "stop s = timer_stop s"

text \<open>
  \<^verbatim>\<open>StudyTimerLogic.__init__\<close> after the sound files were found, with the rows the log
  file already holds. If the folder or a file is missing, construction raises
  \<^verbatim>\<open>FileNotFoundError\<close> and the application exits.
\<close>

definition init :: "config \<Rightarrow> bool \<Rightarrow> log_row list \<Rightarrow> error + engine" where
  "init cfg sounds_found rows =
     (if \<not> sounds_found then Inl FileNotFoundError
      else Inr (reset_cycle
        \<lparr> is_paused = False,
          time_remaining_on_pause = 0,
          timer_active = False,
          timer_remaining = 0,
          timer_duration = None,
          total_study_time = (case cfg_total_study_time cfg of None \<Rightarrow> 0 | Some t \<Rightarrow> t),
          current_cycle_study_time = 0,
          current_session_start_time = None,
          current_session_duration = 0,
          cycle_count = 0,
          current_state = stopped,
          log_rows = rows,
          outputs = [] \<rparr>))"

text \<open>
  \<^verbatim>\<open>StudyTimerGUI.closeEvent\<close> (the Quit action), as far as it touches the engine and the
  configuration: the session in progress is dropped, the total is written to the
  configuration, the engine is stopped.
\<close>

definition closeEvent :: "config \<Rightarrow> engine \<Rightarrow> config \<times> engine" where
  "closeEvent cfg s =
     (let s1 = clear_current_session s;
          cfg1 = cfg\<lparr>cfg_total_study_time := Some (total_study_time s1)\<rparr>
      in (cfg1, stop s1))"

subsection \<open>The event loop\<close>

text \<open>
  What can happen to a running engine: a command of the menu, the passing of \<open>d\<close>
  milliseconds, and the firing of the timer. A single-shot timer fires only while it is
  active and nothing is left of its delay, and is inactive when its slot runs; a timer
  that is overdue reports 0 milliseconds left.
\<close>

datatype event =
    StartOrResume datetime nat
  | Pause
  | ResetCycle
  | ResetAll
  | LoadPersistentTime int
  | Elapse nat
  | Timeout datetime bool nat

definition elapse :: "nat \<Rightarrow> engine \<Rightarrow> engine" where
  "elapse d s =
     (if timer_active s then s\<lparr>timer_remaining := max 0 (timer_remaining s - int d)\<rparr> else s)"

definition timer_due :: "engine \<Rightarrow> bool" where
  "timer_due s = (timer_active s \<and> timer_remaining s \<le> 0)"

fun step :: "config \<Rightarrow> event \<Rightarrow> engine \<Rightarrow> error + engine" where
  "step cfg (StartOrResume now r) s = start_or_resume cfg now r s"
| "step cfg Pause s = Inr (pause s)"
| "step cfg ResetCycle s = Inr (reset_cycle s)"
| "step cfg ResetAll s = Inr (reset_all s)"
| "step cfg (LoadPersistentTime t) s = Inr (load_persistent_time t s)"
| "step cfg (Elapse d) s = Inr (elapse d s)"
| "step cfg (Timeout now ok r) s =
     (if timer_due s then on_timer_timeout cfg now ok r (timer_stop s) else Inr s)"

fun run :: "config \<Rightarrow> event list \<Rightarrow> engine \<Rightarrow> error + engine" where
  "run cfg [] s = Inr s"
| "run cfg (e # es) s = (case step cfg e s of Inl err \<Rightarrow> Inl err | Inr s' \<Rightarrow> run cfg es s')"

inductive reachable :: "config \<Rightarrow> engine \<Rightarrow> bool" for cfg :: config where
  reachable_init: "init cfg True rows = Inr s \<Longrightarrow> reachable cfg s"
| reachable_step: "reachable cfg s \<Longrightarrow> step cfg e s = Inr s' \<Longrightarrow> reachable cfg s'"

subsection \<open>Sessions, phases and the invariant of the engine\<close>

text \<open>A session: construction with the sound files present, then a list of events.\<close>

definition session :: "config \<Rightarrow> log_row list \<Rightarrow> event list \<Rightarrow> error + engine" where
  "session cfg rows es = (case init cfg True rows of Inl err \<Rightarrow> Inl err | Inr s \<Rightarrow> run cfg es s)"

text \<open>The three timed phases.\<close>

definition phase :: "cycle_state \<Rightarrow> bool" where
  "phase st = (st = studying \<or> st = short_breaking \<or> st = long_breaking)"

text \<open>
  What holds of every state the engine can reach: outside a study round nothing is
  accumulated in the cycle before or after a long break; while studying, the timer's
  \<^verbatim>\<open>"duration"\<close> property is the drawn duration of the session in progress, which lies
  in the configured range; the timer runs only in an unpaused phase, with a delay left
  that is a non-negative C integer; and only a phase can be paused.
\<close>

definition engine_inv :: "config \<Rightarrow> engine \<Rightarrow> bool" where
  "engine_inv cfg s =
     ((current_state s = stopped \<or> current_state s = long_breaking \<or>
       current_state s = long_break_finished
         \<longrightarrow> current_cycle_study_time s = 0) \<and>
      (current_state s = studying
         \<longrightarrow> timer_duration s = Some (current_session_duration s) \<and>
             current_session_start_time s \<noteq> None \<and>
             study_time_min cfg \<le> current_session_duration s \<and>
             current_session_duration s \<le> study_time_max cfg) \<and>
      (timer_active s \<longrightarrow> \<not> is_paused s \<and> phase (current_state s)) \<and>
      (timer_active s \<longrightarrow> 0 \<le> timer_remaining s \<and> timer_remaining s \<le> 2147483647) \<and>
      (is_paused s \<longrightarrow> phase (current_state s)))"

text \<open>Reading a field off the result of a session that did not raise.\<close>

definition observe :: "(engine \<Rightarrow> 'a) \<Rightarrow> error + engine \<Rightarrow> 'a option" where
  "observe f res = (case res of Inl err \<Rightarrow> None | Inr s \<Rightarrow> Some (f s))"

text \<open>
  The scenario of the specification: study 5 s, short break 2 s, long break after 8 s of
  study, long break 3 s, and a clock that starts at 09:00:00 on 2024-01-01.
\<close>

definition scenario_config :: config where
  "scenario_config =
     \<lparr> study_time_min = 5, study_time_max = 5, short_break_duration = 2,
       long_break_threshold = 8, long_break_duration = 3, cfg_total_study_time = Some 0 \<rparr>"

definition clock :: "nat \<Rightarrow> datetime" where
  "clock sec = \<lparr> year = 2024, month = 1, day = 1, hour = 9, minute = 0, second = sec \<rparr>"

text \<open>
  Start, and let every timeout fire when its delay has passed: two study rounds, each
  followed by a short break, then the long break.
\<close>

definition scenario_events :: "event list" where
  "scenario_events =
     [StartOrResume (clock 0) 0,
      Elapse 5000, Timeout (clock 5) True 0,
      Elapse 2000, Timeout (clock 7) True 0,
      Elapse 5000, Timeout (clock 12) True 0,
      Elapse 2000, Timeout (clock 14) True 0,
      Elapse 3000, Timeout (clock 17) True 0]"

text \<open>
  What the scenario observes of a state: the phase, whether the timer is armed and the
  milliseconds it was left with, the study time of the cycle, the total, and the number
  of rows in the log.
\<close>

definition view :: "engine \<Rightarrow> cycle_state \<times> bool \<times> int \<times> int \<times> int \<times> nat" where
  "view s =
     (current_state s, timer_active s, timer_remaining s, current_cycle_study_time s,
      total_study_time s, length (log_rows s))"

section \<open>Properties\<close>

subsection \<open>The operations in closed form\<close>

lemmas engine_defs =
  timer_stop_def emit_def play_sound_def clear_current_session_def
  reset_cycle_def reset_all_def load_persistent_time_def pause_def
  elapse_def remainingTime_def Let_def

lemma randint_range: "randint a b r = Inr d \<Longrightarrow> a \<le> d \<and> d \<le> b"
proof -
  assume h: "randint a b r = Inr d"
  then have ab: "a \<le> b" and d: "d = a + int r mod (b - a + 1)"
    by (auto simp: randint_def split: if_splits)
  have "0 < b - a + 1" using ab by simp
  then have "0 \<le> int r mod (b - a + 1)" "int r mod (b - a + 1) < b - a + 1"
    by (rule pos_mod_sign, rule pos_mod_bound)
  with d show ?thesis by linarith
qed


lemma randint_complete: "a \<le> d \<Longrightarrow> d \<le> b \<Longrightarrow> randint a b (nat (d - a)) = Inr d"
  by (simp add: randint_def)

lemma timer_start_Inr:
  assumes "timer_start m s = Inr s'"
  shows "s' = s\<lparr>timer_active := True, timer_remaining := (if m < 0 then 1 else m)\<rparr>"
    and "- 2147483648 \<le> m" and "m \<le> 2147483647"
  using assms by (auto simp: timer_start_def c_int_def split: if_splits)

lemma timer_start_ok:
  "- 2147483648 \<le> m \<Longrightarrow> m \<le> 2147483647 \<Longrightarrow>
   timer_start m s = Inr (s\<lparr>timer_active := True, timer_remaining := (if m < 0 then 1 else m)\<rparr>)"
  by (simp add: timer_start_def c_int_def)

lemma timer_start_overflow:
  "m < - 2147483648 \<or> 2147483647 < m \<Longrightarrow> timer_start m s = Inl OverflowError"
  by (auto simp: timer_start_def c_int_def)

lemma timer_start_fields:
  assumes "timer_start m s = Inr s'"
  shows "timer_active s'" and "0 \<le> timer_remaining s'" and "timer_remaining s' \<le> 2147483647"
    and "is_paused s' = is_paused s" and "current_state s' = current_state s"
    and "current_cycle_study_time s' = current_cycle_study_time s"
    and "total_study_time s' = total_study_time s" and "log_rows s' = log_rows s"
    and "timer_duration s' = timer_duration s"
    and "current_session_duration s' = current_session_duration s"
    and "current_session_start_time s' = current_session_start_time s"
    and "outputs s' = outputs s" and "cycle_count s' = cycle_count s"
    and "time_remaining_on_pause s' = time_remaining_on_pause s"
  using timer_start_Inr [OF assms] by simp_all

lemma run_study_cycle_eq:
  "run_study_cycle cfg now r s =
     (case randint (study_time_min cfg) (study_time_max cfg) r of
        Inl e \<Rightarrow> Inl e
      | Inr d \<Rightarrow>
          timer_start (d * 1000)
            (s\<lparr>cycle_count := cycle_count s + 1, current_state := studying,
               current_session_start_time := Some now, current_session_duration := d,
               outputs := outputs s @ [StateChanged (StudyingText (cycle_count s + 1)) studying,
                                       PlaySound start_study],
               timer_duration := Some d\<rparr>))"
  by (simp add: run_study_cycle_def engine_defs split: sum.splits)

lemma run_study_cycle_Inr:
  assumes "run_study_cycle cfg now r s = Inr s'"
  shows "\<exists>d. randint (study_time_min cfg) (study_time_max cfg) r = Inr d \<and>
           - 2147483648 \<le> d * 1000 \<and> d * 1000 \<le> 2147483647 \<and>
           s' = s\<lparr>cycle_count := cycle_count s + 1, current_state := studying,
                  current_session_start_time := Some now, current_session_duration := d,
                  outputs := outputs s @
                    [StateChanged (StudyingText (cycle_count s + 1)) studying,
                     PlaySound start_study],
                  timer_duration := Some d, timer_active := True,
                  timer_remaining := (if d * 1000 < 0 then 1 else d * 1000)\<rparr>"
proof (cases "randint (study_time_min cfg) (study_time_max cfg) r")
  case (Inl e)
  with assms show ?thesis by (simp add: run_study_cycle_eq)
next
  case (Inr d)
  with assms have t: "timer_start (d * 1000)
            (s\<lparr>cycle_count := cycle_count s + 1, current_state := studying,
               current_session_start_time := Some now, current_session_duration := d,
               outputs := outputs s @ [StateChanged (StudyingText (cycle_count s + 1)) studying,
                                       PlaySound start_study],
               timer_duration := Some d\<rparr>) = Inr s'"
    by (simp add: run_study_cycle_eq)
  from timer_start_Inr [OF t] Inr show ?thesis by simp
qed

lemma reset_cycle_eq:
  "reset_cycle s =
     s\<lparr>timer_active := False, cycle_count := 0, current_state := stopped, is_paused := False,
       current_session_start_time := None, current_session_duration := 0,
       current_cycle_study_time := 0,
       outputs := outputs s @ [StateChanged IdleText stopped,
                               TimeUpdated (c_int_wrapped (total_study_time s))]\<rparr>"
  by (simp add: engine_defs)

lemma reset_all_eq:
  "reset_all s =
     s\<lparr>total_study_time := 0, timer_active := False, cycle_count := 0, current_state := stopped,
       is_paused := False, current_session_start_time := None, current_session_duration := 0,
       current_cycle_study_time := 0,
       outputs := outputs s @ [StateChanged IdleText stopped, TimeUpdated 0, TimeUpdated 0]\<rparr>"
  by (simp add: engine_defs c_int_wrapped_def)

lemma run_short_break_cycle_eq:
  "run_short_break_cycle cfg s =
     timer_start (short_break_duration cfg * 1000)
       (s\<lparr>current_state := short_breaking,
          outputs := outputs s @ [StateChanged ShortBreakText short_breaking,
                                  TimeUpdated (c_int_wrapped (total_study_time s)),
                                  PlaySound start_short_break],
          timer_duration := Some 0\<rparr>)"
  by (simp add: run_short_break_cycle_def engine_defs)

lemma run_long_break_cycle_eq:
  "run_long_break_cycle cfg s =
     timer_start (long_break_duration cfg * 1000)
       (s\<lparr>current_state := long_breaking,
          outputs := outputs s @ [StateChanged LongBreakText long_breaking,
                                  TimeUpdated (c_int_wrapped (total_study_time s)),
                                  PlaySound start_long_break],
          current_cycle_study_time := 0,
          timer_duration := Some 0\<rparr>)"
  by (simp add: run_long_break_cycle_def engine_defs)

lemma pause_eq:
  "pause s =
     (if timer_active s
      then s\<lparr>time_remaining_on_pause := max 0 (min 2147483647 (timer_remaining s)),
             timer_active := False, is_paused := True,
             outputs := outputs s @ [StateChanged PausedText (current_state s)]\<rparr>
      else s)"
  by (simp add: engine_defs)

lemma resume_eq:
  "resume s =
     (if is_paused s
      then (case timer_start (time_remaining_on_pause s) s of
              Inl e \<Rightarrow> Inl e
            | Inr s1 \<Rightarrow>
                Inr (s1\<lparr>is_paused := False,
                       outputs := outputs s1 @
                         [PlaySound start_study,
                          StateChanged
                            (if current_state s1 = studying then StudyingText (cycle_count s1)
                             else if current_state s1 = short_breaking then ShortBreakText
                             else if current_state s1 = long_breaking then LongBreakText
                             else UnknownText) (current_state s1)]\<rparr>))
      else Inr s)"
  by (simp add: resume_def engine_defs split: sum.splits)

lemma resume_Inr:
  assumes "is_paused s" and "resume s = Inr s'"
  shows "s' = s\<lparr>timer_active := True,
                 timer_remaining := (if time_remaining_on_pause s < 0 then 1
                                     else time_remaining_on_pause s),
                 is_paused := False,
                 outputs := outputs s @
                   [PlaySound start_study,
                    StateChanged
                      (if current_state s = studying then StudyingText (cycle_count s)
                       else if current_state s = short_breaking then ShortBreakText
                       else if current_state s = long_breaking then LongBreakText
                       else UnknownText) (current_state s)]\<rparr>"
proof (cases "timer_start (time_remaining_on_pause s) s")
  case (Inl e)
  with assms show ?thesis by (simp add: resume_eq)
next
  case (Inr s1)
  from timer_start_Inr(1) [OF Inr] assms Inr show ?thesis
    by (auto simp: resume_eq)
qed

lemma resume_ok:
  assumes "is_paused s" and "0 \<le> time_remaining_on_pause s"
    and "time_remaining_on_pause s \<le> 2147483647"
  shows "resume s =
     Inr (s\<lparr>timer_active := True, timer_remaining := time_remaining_on_pause s,
            is_paused := False,
            outputs := outputs s @
              [PlaySound start_study,
               StateChanged
                 (if current_state s = studying then StudyingText (cycle_count s)
                  else if current_state s = short_breaking then ShortBreakText
                  else if current_state s = long_breaking then LongBreakText
                  else UnknownText) (current_state s)]\<rparr>)"
  using assms by (simp add: resume_eq timer_start_ok)

lemma log_session_eq:
  "log_session ok start_time end_time n rows =
     (case (start_time, end_time) of
        (Some st, Some en) \<Rightarrow>
          if 0 < n then (if ok then (rows @ [make_row st en n], [])
                         else (rows, [Print ''Error: Failed to write log'']))
          else (rows, [])
      | _ \<Rightarrow> (rows, []))"
  by (simp add: log_session_def csv_append_def split: option.splits)

lemma unpause_idem: "\<not> is_paused s \<Longrightarrow> s\<lparr>is_paused := False\<rparr> = s"
  by (cases s) simp

lemma on_timer_timeout_short_breaking:
  "current_state s = short_breaking \<Longrightarrow>
   on_timer_timeout cfg now ok r s =
     (if long_break_threshold cfg \<le> current_cycle_study_time s
      then run_long_break_cycle cfg s else run_study_cycle cfg now r s)"
  by (simp add: on_timer_timeout_def)

lemma on_timer_timeout_long_breaking:
  "current_state s = long_breaking \<Longrightarrow>
   on_timer_timeout cfg now ok r s =
     Inr (s\<lparr>current_state := long_break_finished,
            outputs := outputs s @
              [PlaySound end_long_break, StateChanged LongBreakEndedText long_break_finished,
               NotificationRequested ''Break Finished'' ''Ready to start the next session?'']\<rparr>)"
  by (simp add: on_timer_timeout_def engine_defs)

lemma on_timer_timeout_idle:
  "current_state s = stopped \<or> current_state s = long_break_finished \<Longrightarrow>
   on_timer_timeout cfg now ok r s = Inr s"
  by (auto simp add: on_timer_timeout_def)

lemma start_or_resume_paused:
  "is_paused s \<Longrightarrow> start_or_resume cfg now r s = resume s"
  by (simp add: start_or_resume_def)

lemma start_or_resume_stopped:
  "\<not> is_paused s \<Longrightarrow> current_state s = stopped \<Longrightarrow>
   start_or_resume cfg now r s =
     (if long_break_threshold cfg \<le> current_cycle_study_time s
      then run_long_break_cycle cfg s else run_study_cycle cfg now r s)"
  by (simp add: start_or_resume_def unpause_idem)

lemma start_or_resume_finished:
  "\<not> is_paused s \<Longrightarrow> current_state s = long_break_finished \<Longrightarrow>
   start_or_resume cfg now r s =
     (if long_break_threshold cfg \<le> 0
      then run_long_break_cycle cfg (reset_cycle s)
      else run_study_cycle cfg now r (reset_cycle s))"
  by (simp add: start_or_resume_def unpause_idem) (simp add: reset_cycle_eq)

lemma start_or_resume_running:
  "\<not> is_paused s \<Longrightarrow> phase (current_state s) \<Longrightarrow> start_or_resume cfg now r s = Inr s"
  by (auto simp: start_or_resume_def phase_def)

lemma on_timer_timeout_studying:
  assumes "current_state s = studying" and "timer_duration s = Some d"
  shows "on_timer_timeout cfg now ok r s =
     (case (if current_session_start_time s \<noteq> None \<and> 0 < current_session_duration s
            then log_session ok (current_session_start_time s) (Some now)
                   (current_session_duration s) (log_rows s)
            else (log_rows s, [])) of
        (rows, printed) \<Rightarrow>
          run_short_break_cycle cfg
            (s\<lparr>log_rows := rows, outputs := outputs s @ printed,
               current_session_start_time := None, current_session_duration := 0,
               total_study_time := total_study_time s + d,
               current_cycle_study_time := current_cycle_study_time s + d\<rparr>))"
  using assms
  by (simp add: on_timer_timeout_def clear_current_session_def Let_def split: prod.splits)

lemma on_timer_timeout_studying_None:
  "current_state s = studying \<Longrightarrow> timer_duration s = None \<Longrightarrow>
   on_timer_timeout cfg now ok r s = Inl TypeError"
  by (simp add: on_timer_timeout_def clear_current_session_def Let_def split: prod.splits)

subsection \<open>The invariant\<close>

lemma inv_init: "init cfg True rows = Inr s \<Longrightarrow> engine_inv cfg s"
  by (auto simp: init_def engine_inv_def reset_cycle_eq phase_def)

lemma inv_run_study_cycle:
  assumes "run_study_cycle cfg now r s = Inr s'" and "\<not> is_paused s"
  shows "engine_inv cfg s'"
proof -
  from run_study_cycle_Inr [OF assms(1)] obtain d where
    d: "randint (study_time_min cfg) (study_time_max cfg) r = Inr d" and
    b: "d * 1000 \<le> 2147483647" and
    s': "s' = s\<lparr>cycle_count := cycle_count s + 1, current_state := studying,
                  current_session_start_time := Some now, current_session_duration := d,
                  outputs := outputs s @
                    [StateChanged (StudyingText (cycle_count s + 1)) studying,
                     PlaySound start_study],
                  timer_duration := Some d, timer_active := True,
                  timer_remaining := (if d * 1000 < 0 then 1 else d * 1000)\<rparr>"
    by blast
  from randint_range [OF d] assms(2) b show ?thesis
    by (simp add: s' engine_inv_def phase_def)
qed

lemma inv_run_long_break_cycle:
  assumes "run_long_break_cycle cfg s = Inr s'" and "\<not> is_paused s"
  shows "engine_inv cfg s'"
  using timer_start_fields [OF assms(1) [unfolded run_long_break_cycle_eq]] assms(2)
  by (simp add: engine_inv_def phase_def)

lemma inv_reset_cycle: "engine_inv cfg (reset_cycle s)"
  by (simp add: reset_cycle_eq engine_inv_def phase_def)

lemma inv_start_or_resume:
  assumes "engine_inv cfg s" and "start_or_resume cfg now r s = Inr s'"
  shows "engine_inv cfg s'"
proof (cases "is_paused s")
  case True
  then have "resume s = Inr s'" using assms(2) by (simp add: start_or_resume_paused)
  from resume_Inr [OF True this]
  have s': "s' = s\<lparr>timer_active := True,
                 timer_remaining := (if time_remaining_on_pause s < 0 then 1
                                     else time_remaining_on_pause s),
                 is_paused := False,
                 outputs := outputs s @
                   [PlaySound start_study,
                    StateChanged
                      (if current_state s = studying then StudyingText (cycle_count s)
                       else if current_state s = short_breaking then ShortBreakText
                       else if current_state s = long_breaking then LongBreakText
                       else UnknownText) (current_state s)]\<rparr>"
    by simp
  have "timer_start (time_remaining_on_pause s) s \<noteq> Inl OverflowError"
    using \<open>resume s = Inr s'\<close> True by (auto simp: resume_eq split: sum.splits)
  then have "time_remaining_on_pause s \<le> 2147483647"
    using timer_start_overflow [of "time_remaining_on_pause s" s] by force
  with True assms(1) show ?thesis
    by (simp add: s' engine_inv_def phase_def)
next
  case False
  consider "current_state s = stopped" | "current_state s = long_break_finished"
    | "phase (current_state s)"
    by (cases "current_state s") (simp_all add: phase_def)
  then show ?thesis
  proof cases
    case 1
    from assms(2) show ?thesis
      unfolding start_or_resume_stopped [OF False 1]
      by (auto split: if_splits intro: inv_run_long_break_cycle [OF _ False]
            inv_run_study_cycle [OF _ False])
  next
    case 2
    have np: "\<not> is_paused (reset_cycle s)" by (simp add: reset_cycle_eq)
    from assms(2) show ?thesis
      unfolding start_or_resume_finished [OF False 2]
      by (auto split: if_splits intro: inv_run_long_break_cycle [OF _ np]
            inv_run_study_cycle [OF _ np])
  next
    case 3
    from assms show ?thesis by (simp add: start_or_resume_running [OF False 3])
  qed
qed

lemma inv_on_timer_timeout:
  assumes "engine_inv cfg s" and "timer_due s"
    and "on_timer_timeout cfg now ok r (timer_stop s) = Inr s'"
  shows "engine_inv cfg s'"
proof -
  let ?t = "timer_stop s"
  have np: "\<not> is_paused ?t" and st: "current_state ?t = current_state s"
    and ph: "phase (current_state s)"
    using assms(1,2) by (simp_all add: engine_inv_def timer_due_def timer_stop_def)
  from ph consider "current_state s = studying" | "current_state s = short_breaking"
    | "current_state s = long_breaking" by (auto simp: phase_def)
  then show ?thesis
  proof cases
    case 1
    with st have c: "current_state ?t = studying" by simp
    from 1 assms(1) have d: "timer_duration ?t = Some (current_session_duration s)"
      by (simp add: engine_inv_def timer_stop_def)
    obtain rows printed where
      "run_short_break_cycle cfg
            (?t\<lparr>log_rows := rows, outputs := outputs ?t @ printed,
               current_session_start_time := None, current_session_duration := 0,
               total_study_time := total_study_time ?t + current_session_duration s,
               current_cycle_study_time :=
                 current_cycle_study_time ?t + current_session_duration s\<rparr>) = Inr s'"
      using assms(3) unfolding on_timer_timeout_studying [OF c d]
      by (auto split: prod.splits)
    from timer_start_fields [OF this [unfolded run_short_break_cycle_eq]] np show ?thesis
      by (simp add: engine_inv_def phase_def)
  next
    case 2
    with st have c: "current_state ?t = short_breaking" by simp
    from assms(3) show ?thesis
      unfolding on_timer_timeout_short_breaking [OF c]
      by (auto split: if_splits intro: inv_run_long_break_cycle [OF _ np]
            inv_run_study_cycle [OF _ np])
  next
    case 3
    with st have c: "current_state ?t = long_breaking" by simp
    from assms(1) 3 have z: "current_cycle_study_time s = 0" by (simp add: engine_inv_def)
    from assms(3) np z show ?thesis
      unfolding on_timer_timeout_long_breaking [OF c]
      by (auto simp: engine_inv_def phase_def timer_stop_def)
  qed
qed

lemma inv_step:
  assumes "engine_inv cfg s" and "step cfg e s = Inr s'"
  shows "engine_inv cfg s'"
proof (cases e)
  case (StartOrResume now r)
  with assms(2) have "start_or_resume cfg now r s = Inr s'" by simp
  with assms(1) show ?thesis by (rule inv_start_or_resume)
next
  case Pause
  with assms(2) have "s' = pause s" by simp
  with assms(1) show ?thesis by (simp add: pause_eq engine_inv_def phase_def)
next
  case ResetCycle
  with assms(2) have "s' = reset_cycle s" by simp
  then show ?thesis by (simp add: inv_reset_cycle)
next
  case ResetAll
  with assms(2) have "s' = reset_all s" by simp
  then show ?thesis by (simp add: reset_all_eq engine_inv_def phase_def)
next
  case (LoadPersistentTime t)
  with assms(2) have "s' = load_persistent_time t s" by simp
  with assms(1) show ?thesis
    by (simp add: load_persistent_time_def emit_def Let_def engine_inv_def)
next
  case (Elapse d)
  with assms(2) have "s' = elapse d s" by simp
  with assms(1) show ?thesis by (auto simp: elapse_def engine_inv_def)
next
  case (Timeout now ok r)
  show ?thesis
  proof (cases "timer_due s")
    case True
    with assms(2) Timeout have "on_timer_timeout cfg now ok r (timer_stop s) = Inr s'" by simp
    with assms(1) True show ?thesis by (rule inv_on_timer_timeout)
  next
    case False
    with assms Timeout show ?thesis by simp
  qed
qed

lemma reachable_inv: "reachable cfg s \<Longrightarrow> engine_inv cfg s"
proof (induction rule: reachable.induct)
  case (reachable_init rows s)
  then show ?case by (rule inv_init)
next
  case (reachable_step s e s')
  then show ?case by (blast intro: inv_step)
qed

lemma run_reachable: "reachable cfg s \<Longrightarrow> run cfg es s = Inr s' \<Longrightarrow> reachable cfg s'"
proof (induction es arbitrary: s)
  case Nil
  then show ?case by simp
next
  case (Cons e es)
  from Cons.prems(2) obtain s1 where s1: "step cfg e s = Inr s1" and r: "run cfg es s1 = Inr s'"
    by (cases "step cfg e s") simp_all
  from Cons.prems(1) s1 have "reachable cfg s1" by (rule reachable_step)
  then show ?case using r by (rule Cons.IH)
qed

lemma session_reachable:
  assumes "session cfg rows es = Inr s"
  shows "reachable cfg s"
proof -
  from assms obtain s0 where i: "init cfg True rows = Inr s0" and r: "run cfg es s0 = Inr s"
    by (cases "init cfg True rows") (simp_all add: session_def)
  from i have "reachable cfg s0" by (rule reachable_init)
  then show ?thesis using r by (rule run_reachable)
qed

lemma run_snoc:
  "run cfg (es @ [e]) s = (case run cfg es s of Inl err \<Rightarrow> Inl err | Inr s1 \<Rightarrow> step cfg e s1)"
  by (induction es arbitrary: s) (simp_all split: sum.splits)

lemma session_snoc:
  "session cfg rows es = Inr s \<Longrightarrow> session cfg rows (es @ [e]) = step cfg e s"
  by (cases "init cfg True rows") (simp_all add: session_def run_snoc)

lemmas eval_defs =
  session_def init_def start_or_resume_def on_timer_timeout_def run_study_cycle_def randint_def
  run_short_break_cycle_def run_long_break_cycle_def resume_def timer_start_def c_int_def
  c_int_wrapped_def timer_due_def log_session_def csv_append_def engine_defs
  scenario_config_def scenario_events_def observe_def

subsection \<open>What one event does to a reachable state\<close>

lemma run_study_cycle_fields:
  assumes "run_study_cycle cfg now r s = Inr s'"
  shows "current_state s' = studying"
    and "current_cycle_study_time s' = current_cycle_study_time s"
    and "total_study_time s' = total_study_time s"
    and "log_rows s' = log_rows s"
    and "study_time_min cfg \<le> current_session_duration s'"
proof -
  from run_study_cycle_Inr [OF assms] obtain d where
    d: "randint (study_time_min cfg) (study_time_max cfg) r = Inr d" and
    s': "s' = s\<lparr>cycle_count := cycle_count s + 1, current_state := studying,
                  current_session_start_time := Some now, current_session_duration := d,
                  outputs := outputs s @
                    [StateChanged (StudyingText (cycle_count s + 1)) studying,
                     PlaySound start_study],
                  timer_duration := Some d, timer_active := True,
                  timer_remaining := (if d * 1000 < 0 then 1 else d * 1000)\<rparr>"
    by blast
  show "current_state s' = studying" by (simp add: s')
  show "current_cycle_study_time s' = current_cycle_study_time s" by (simp add: s')
  show "total_study_time s' = total_study_time s" by (simp add: s')
  show "log_rows s' = log_rows s" by (simp add: s')
  show "study_time_min cfg \<le> current_session_duration s'"
    using randint_range [OF d] by (simp add: s')
qed

lemma start_cases:
  assumes "engine_inv cfg s" and "start_or_resume cfg now r s = Inr s'"
  obtains
    (resumed) "is_paused s" "resume s = Inr s'"
  | (long_break) "\<not> is_paused s" "current_state s = stopped \<or> current_state s = long_break_finished"
      "long_break_threshold cfg \<le> 0" "current_cycle_study_time s = 0"
      "current_state s' = long_breaking" "current_cycle_study_time s' = 0"
      "total_study_time s' = total_study_time s" "log_rows s' = log_rows s"
  | (study) "\<not> is_paused s" "current_state s = stopped \<or> current_state s = long_break_finished"
      "\<not> long_break_threshold cfg \<le> 0" "current_cycle_study_time s = 0"
      "current_state s' = studying" "current_cycle_study_time s' = 0"
      "total_study_time s' = total_study_time s" "log_rows s' = log_rows s"
      "study_time_min cfg \<le> current_session_duration s'"
  | (ignored) "\<not> is_paused s" "phase (current_state s)" "s' = s"
proof (cases "is_paused s")
  case True
  then have "resume s = Inr s'" using assms(2) by (simp add: start_or_resume_paused)
  with True show ?thesis by (rule resumed)
next
  case False
  consider "current_state s = stopped" | "current_state s = long_break_finished"
    | "phase (current_state s)"
    by (cases "current_state s") (simp_all add: phase_def)
  then show ?thesis
  proof cases
    case 1
    then have z: "current_cycle_study_time s = 0" using assms(1) by (simp add: engine_inv_def)
    show ?thesis
    proof (cases "long_break_threshold cfg \<le> 0")
      case True
      with assms(2) z have "run_long_break_cycle cfg s = Inr s'"
        by (simp add: start_or_resume_stopped [OF False 1])
      from timer_start_fields [OF this [unfolded run_long_break_cycle_eq]]
      show ?thesis using False 1 True z
        by (intro long_break) simp_all
    next
      case nl: False
      with assms(2) z have "run_study_cycle cfg now r s = Inr s'"
        by (simp add: start_or_resume_stopped [OF False 1])
      from run_study_cycle_fields [OF this] show ?thesis using False 1 nl z
        by (intro study) simp_all
    qed
  next
    case 2
    then have z: "current_cycle_study_time s = 0" using assms(1) by (simp add: engine_inv_def)
    show ?thesis
    proof (cases "long_break_threshold cfg \<le> 0")
      case True
      with assms(2) have "run_long_break_cycle cfg (reset_cycle s) = Inr s'"
        by (simp add: start_or_resume_finished [OF False 2])
      from timer_start_fields [OF this [unfolded run_long_break_cycle_eq]]
      show ?thesis using False 2 True z
        by (intro long_break) (simp_all add: reset_cycle_eq)
    next
      case nl: False
      with assms(2) have "run_study_cycle cfg now r (reset_cycle s) = Inr s'"
        by (simp add: start_or_resume_finished [OF False 2])
      from run_study_cycle_fields [OF this] show ?thesis using False 2 nl z
        by (intro study) (simp_all add: reset_cycle_eq)
    qed
  next
    case 3
    with assms(2) False have "s' = s" by (simp add: start_or_resume_running)
    with False 3 show ?thesis by (intro ignored)
  qed
qed

lemma timeout_cases:
  assumes "engine_inv cfg s" and "timer_due s"
    and "on_timer_timeout cfg now ok r (timer_stop s) = Inr s'"
  obtains
    (study_done) st where "current_state s = studying" "current_session_start_time s = Some st"
      "study_time_min cfg \<le> current_session_duration s"
      "current_state s' = short_breaking"
      "current_cycle_study_time s' = current_cycle_study_time s + current_session_duration s"
      "total_study_time s' = total_study_time s + current_session_duration s"
      "log_rows s' = log_rows s @
         (if 0 < current_session_duration s \<and> ok
          then [make_row st now (current_session_duration s)] else [])"
  | (to_long) "current_state s = short_breaking"
      "long_break_threshold cfg \<le> current_cycle_study_time s"
      "current_state s' = long_breaking" "current_cycle_study_time s' = 0"
      "total_study_time s' = total_study_time s" "log_rows s' = log_rows s"
  | (to_study) "current_state s = short_breaking"
      "\<not> long_break_threshold cfg \<le> current_cycle_study_time s"
      "current_state s' = studying"
      "current_cycle_study_time s' = current_cycle_study_time s"
      "total_study_time s' = total_study_time s" "log_rows s' = log_rows s"
      "study_time_min cfg \<le> current_session_duration s'"
  | (long_done) "current_state s = long_breaking" "current_cycle_study_time s = 0"
      "current_state s' = long_break_finished" "current_cycle_study_time s' = 0"
      "total_study_time s' = total_study_time s" "log_rows s' = log_rows s"
proof -
  let ?t = "timer_stop s"
  have st: "current_state ?t = current_state s" by (simp add: timer_stop_def)
  have ph: "phase (current_state s)"
    using assms(1,2) by (simp add: engine_inv_def timer_due_def)
  from ph consider "current_state s = studying" | "current_state s = short_breaking"
    | "current_state s = long_breaking" by (auto simp: phase_def)
  then show ?thesis
  proof cases
    case 1
    with st have c: "current_state ?t = studying" by simp
    from 1 assms(1) have d: "timer_duration ?t = Some (current_session_duration s)"
      and lo: "study_time_min cfg \<le> current_session_duration s"
      by (simp_all add: engine_inv_def timer_stop_def)
    from 1 assms(1) obtain sta where sta: "current_session_start_time s = Some sta"
      by (auto simp: engine_inv_def)
    define L where "L = (if current_session_start_time ?t \<noteq> None \<and>
                              0 < current_session_duration ?t
            then log_session ok (current_session_start_time ?t) (Some now)
                   (current_session_duration ?t) (log_rows ?t)
            else (log_rows ?t, []))"
    have fL: "fst L = log_rows s @
         (if 0 < current_session_duration s \<and> ok
          then [make_row sta now (current_session_duration s)] else [])"
      by (simp add: L_def log_session_eq sta timer_stop_def)
    obtain rows printed where rp: "L = (rows, printed)" by (cases L)
    have "run_short_break_cycle cfg
            (?t\<lparr>log_rows := rows, outputs := outputs ?t @ printed,
               current_session_start_time := None, current_session_duration := 0,
               total_study_time := total_study_time ?t + current_session_duration s,
               current_cycle_study_time :=
                 current_cycle_study_time ?t + current_session_duration s\<rparr>) = Inr s'"
      using assms(3) unfolding on_timer_timeout_studying [OF c d] L_def [symmetric] rp
      by simp
    note f = timer_start_fields [OF this [unfolded run_short_break_cycle_eq]]
    have s': "current_state s' = short_breaking"
      "current_cycle_study_time s' = current_cycle_study_time s + current_session_duration s"
      "total_study_time s' = total_study_time s + current_session_duration s"
      "log_rows s' = log_rows s @
         (if 0 < current_session_duration s \<and> ok
          then [make_row sta now (current_session_duration s)] else [])"
      using f fL rp by (simp_all add: timer_stop_def)
    show ?thesis
      by (rule study_done [OF 1 sta lo s'])
  next
    case 2
    with st have c: "current_state ?t = short_breaking" by simp
    have cc: "current_cycle_study_time ?t = current_cycle_study_time s"
      and tt: "total_study_time ?t = total_study_time s" and ll: "log_rows ?t = log_rows s"
      by (simp_all add: timer_stop_def)
    show ?thesis
    proof (cases "long_break_threshold cfg \<le> current_cycle_study_time s")
      case True
      with assms(3) have "run_long_break_cycle cfg ?t = Inr s'"
        by (simp add: on_timer_timeout_short_breaking [OF c] cc)
      from timer_start_fields [OF this [unfolded run_long_break_cycle_eq]]
      show ?thesis using 2 True
        by (intro to_long) (simp_all add: timer_stop_def)
    next
      case False
      with assms(3) have "run_study_cycle cfg now r ?t = Inr s'"
        by (simp add: on_timer_timeout_short_breaking [OF c] cc)
      from run_study_cycle_fields [OF this] show ?thesis using 2 False
        by (intro to_study) (simp_all add: cc tt ll)
    qed
  next
    case 3
    with st have c: "current_state ?t = long_breaking" by simp
    from assms(1) 3 have z: "current_cycle_study_time s = 0" by (simp add: engine_inv_def)
    from assms(3) have "s' = ?t\<lparr>current_state := long_break_finished,
            outputs := outputs ?t @
              [PlaySound end_long_break, StateChanged LongBreakEndedText long_break_finished,
               NotificationRequested ''Break Finished'' ''Ready to start the next session?'']\<rparr>"
      by (simp add: on_timer_timeout_long_breaking [OF c])
    then show ?thesis using 3 z
      by (intro long_done) (simp_all add: timer_stop_def)
  qed
qed

lemma step_cases [consumes 2, case_names resumed ignored paused elapsed not_due loaded
    reset_cycle reset_all start_long start_study study_done to_long to_study long_done]:
  assumes "engine_inv cfg s" and "step cfg e s = Inr s'"
  obtains
    (resumed) now r where "e = StartOrResume now r" "is_paused s"
      "current_state s' = current_state s"
      "current_cycle_study_time s' = current_cycle_study_time s"
      "total_study_time s' = total_study_time s" "log_rows s' = log_rows s"
  | (ignored) now r where "e = StartOrResume now r" "s' = s"
  | (paused) "e = Pause"
      "current_state s' = current_state s"
      "current_cycle_study_time s' = current_cycle_study_time s"
      "total_study_time s' = total_study_time s" "log_rows s' = log_rows s"
  | (elapsed) d where "e = Elapse d"
      "current_state s' = current_state s"
      "current_cycle_study_time s' = current_cycle_study_time s"
      "total_study_time s' = total_study_time s" "log_rows s' = log_rows s"
  | (not_due) now ok r where "e = Timeout now ok r" "\<not> timer_due s" "s' = s"
  | (loaded) t where "e = LoadPersistentTime t"
      "current_state s' = current_state s"
      "current_cycle_study_time s' = current_cycle_study_time s"
      "total_study_time s' = t" "log_rows s' = log_rows s"
  | (reset_cycle) "e = ResetCycle" "current_state s' = stopped"
      "current_cycle_study_time s' = 0"
      "total_study_time s' = total_study_time s" "log_rows s' = log_rows s"
      "current_session_start_time s' = None" "\<not> timer_active s'"
  | (reset_all) "e = ResetAll" "current_state s' = stopped"
      "current_cycle_study_time s' = 0"
      "total_study_time s' = 0" "log_rows s' = log_rows s"
      "current_session_start_time s' = None" "\<not> timer_active s'"
  | (start_long) now r where "e = StartOrResume now r"
      "current_state s = stopped \<or> current_state s = long_break_finished"
      "long_break_threshold cfg \<le> 0" "current_cycle_study_time s = 0"
      "current_state s' = long_breaking" "current_cycle_study_time s' = 0"
      "total_study_time s' = total_study_time s" "log_rows s' = log_rows s"
  | (start_study) now r where "e = StartOrResume now r"
      "current_state s = stopped \<or> current_state s = long_break_finished"
      "\<not> long_break_threshold cfg \<le> 0" "current_cycle_study_time s = 0"
      "current_state s' = studying" "current_cycle_study_time s' = 0"
      "total_study_time s' = total_study_time s" "log_rows s' = log_rows s"
  | (study_done) now ok r st where "e = Timeout now ok r" "timer_due s"
      "current_state s = studying" "current_session_start_time s = Some st"
      "study_time_min cfg \<le> current_session_duration s"
      "current_state s' = short_breaking"
      "current_cycle_study_time s' = current_cycle_study_time s + current_session_duration s"
      "total_study_time s' = total_study_time s + current_session_duration s"
      "log_rows s' = log_rows s @
         (if 0 < current_session_duration s \<and> ok
          then [make_row st now (current_session_duration s)] else [])"
  | (to_long) now ok r where "e = Timeout now ok r" "timer_due s"
      "current_state s = short_breaking"
      "long_break_threshold cfg \<le> current_cycle_study_time s"
      "current_state s' = long_breaking" "current_cycle_study_time s' = 0"
      "total_study_time s' = total_study_time s" "log_rows s' = log_rows s"
  | (to_study) now ok r where "e = Timeout now ok r" "timer_due s"
      "current_state s = short_breaking"
      "\<not> long_break_threshold cfg \<le> current_cycle_study_time s"
      "current_state s' = studying"
      "current_cycle_study_time s' = current_cycle_study_time s"
      "total_study_time s' = total_study_time s" "log_rows s' = log_rows s"
  | (long_done) now ok r where "e = Timeout now ok r" "timer_due s"
      "current_state s = long_breaking" "current_cycle_study_time s = 0"
      "current_state s' = long_break_finished" "current_cycle_study_time s' = 0"
      "total_study_time s' = total_study_time s" "log_rows s' = log_rows s"
proof (cases e)
  case (StartOrResume now r)
  with assms(2) have sr: "start_or_resume cfg now r s = Inr s'" by simp
  from assms(1) sr show ?thesis
  proof (cases rule: start_cases)
    case resumed
    from resume_Inr [OF resumed] resumed(1) show ?thesis
      by (intro that(1) [OF StartOrResume]) simp_all
  next
    case long_break
    then show ?thesis by (intro that(9) [OF StartOrResume])
  next
    case study
    then show ?thesis by (intro that(10) [OF StartOrResume])
  next
    case ignored
    then show ?thesis by (intro that(2) [OF StartOrResume])
  qed
next
  case Pause
  with assms(2) have "s' = pause s" by simp
  then show ?thesis by (intro that(3) [OF Pause]) (simp_all add: pause_eq)
next
  case ResetCycle
  with assms(2) have "s' = reset_cycle s" by simp
  then show ?thesis by (intro that(7) [OF ResetCycle]) (simp_all add: reset_cycle_eq)
next
  case ResetAll
  with assms(2) have "s' = reset_all s" by simp
  then show ?thesis by (intro that(8) [OF ResetAll]) (simp_all add: reset_all_eq)
next
  case (LoadPersistentTime t)
  with assms(2) have "s' = load_persistent_time t s" by simp
  then show ?thesis
    by (intro that(6) [OF LoadPersistentTime])
       (simp_all add: load_persistent_time_def emit_def Let_def)
next
  case (Elapse d)
  with assms(2) have "s' = elapse d s" by simp
  then show ?thesis by (intro that(4) [OF Elapse]) (simp_all add: elapse_def)
next
  case (Timeout now ok r)
  show ?thesis
  proof (cases "timer_due s")
    case False
    with assms(2) Timeout have "s' = s" by simp
    with False show ?thesis by (intro that(5) [OF Timeout])
  next
    case True
    with assms(2) Timeout have t: "on_timer_timeout cfg now ok r (timer_stop s) = Inr s'" by simp
    from assms(1) True t show ?thesis
    proof (cases rule: timeout_cases)
      case (study_done st)
      then show ?thesis by (intro that(11) [OF Timeout True])
    next
      case to_long
      then show ?thesis by (intro that(12) [OF Timeout True])
    next
      case to_study
      then show ?thesis by (intro that(13) [OF Timeout True])
    next
      case long_done
      then show ?thesis by (intro that(14) [OF Timeout True])
    qed
  qed
qed

subsection \<open>Start while a phase is running\<close>

text \<open>
  C10. While the state is studying, short_breaking or long_breaking and the engine is not
  paused, \<^verbatim>\<open>start_or_resume\<close> returns the engine as it was: no field changes, the timer is
  not touched, nothing is drawn and nothing is emitted (the emissions are a field of
  the state).
\<close>

theorem start_or_resume_while_running:
  "\<not> is_paused s \<Longrightarrow> phase (current_state s) \<Longrightarrow> start_or_resume cfg now r s = Inr s"
  by (auto simp: start_or_resume_def phase_def)

theorem start_or_resume_while_running_witness:
  "\<exists>s. session scenario_config [] [StartOrResume (clock 0) 0, Elapse 2000] = Inr s \<and>
       \<not> is_paused s \<and> phase (current_state s) \<and> timer_active s \<and>
       start_or_resume scenario_config (clock 2) 0 s = Inr s"
proof -
  obtain s where s: "session scenario_config [] [StartOrResume (clock 0) 0, Elapse 2000] = Inr s"
    by (simp add: eval_defs)
  have p: "\<not> is_paused s" and ph: "phase (current_state s)" and a: "timer_active s"
    using s by (auto simp: eval_defs phase_def)
  from s p ph a start_or_resume_while_running [OF p ph, of scenario_config "clock 2" 0]
  show ?thesis by blast
qed

subsection \<open>Pause and resume\<close>

text \<open>
  C5. If \<^verbatim>\<open>pause\<close> is called while the phase timer is active with \<open>R\<close> milliseconds left
  (what \<^verbatim>\<open>remainingTime()\<close> reports, which in every reachable state is the delay the timer
  was left with), it records \<open>R\<close>, and a later \<^verbatim>\<open>start_or_resume\<close> (any time \<open>d\<close> later,
  whatever the configuration and the entropy) does not raise and starts the timer with
  exactly \<open>R\<close> milliseconds: it is due once \<open>R\<close> milliseconds have passed and not before.
  The phase, the drawn duration of the session, its start time and the timer's
  \<^verbatim>\<open>"duration"\<close> property are what they were before the pause.
\<close>

theorem pause_resume_keeps_remaining_time:
  assumes "timer_active s"
  shows "\<exists>s'. start_or_resume cfg now r (elapse d (pause s)) = Inr s' \<and>
           time_remaining_on_pause (pause s) = remainingTime s \<and>
           (0 \<le> timer_remaining s \<and> timer_remaining s \<le> 2147483647
              \<longrightarrow> remainingTime s = timer_remaining s) \<and>
           (reachable cfg s \<longrightarrow> remainingTime s = timer_remaining s) \<and>
           \<not> timer_active (pause s) \<and> is_paused (pause s) \<and>
           timer_active s' \<and> timer_remaining s' = remainingTime s \<and> \<not> is_paused s' \<and>
           (\<forall>k. timer_due (elapse k s') = (remainingTime s \<le> int k)) \<and>
           current_state s' = current_state s \<and>
           current_session_duration s' = current_session_duration s \<and>
           current_session_start_time s' = current_session_start_time s \<and>
           timer_duration s' = timer_duration s \<and>
           cycle_count s' = cycle_count s \<and>
           total_study_time s' = total_study_time s \<and>
           current_cycle_study_time s' = current_cycle_study_time s \<and>
           log_rows s' = log_rows s"
proof -
  let ?p = "pause s"
  have rt: "remainingTime s = max 0 (min 2147483647 (timer_remaining s))"
    using assms by (simp add: remainingTime_def)
  have b: "0 \<le> remainingTime s" "remainingTime s \<le> 2147483647"
    unfolding rt by simp_all
  have p: "is_paused ?p" and tr: "time_remaining_on_pause ?p = remainingTime s"
    and na: "\<not> timer_active ?p"
    using assms by (simp_all add: pause_eq rt)
  have e: "elapse d ?p = ?p" using na by (simp add: elapse_def)
  have in_range: "0 \<le> timer_remaining s \<and> timer_remaining s \<le> 2147483647
              \<longrightarrow> remainingTime s = timer_remaining s"
    unfolding rt by simp
  have reach: "reachable cfg s \<longrightarrow> remainingTime s = timer_remaining s"
  proof
    assume "reachable cfg s"
    from reachable_inv [OF this] assms
    have "0 \<le> timer_remaining s \<and> timer_remaining s \<le> 2147483647"
      by (simp add: engine_inv_def)
    with in_range show "remainingTime s = timer_remaining s" by simp
  qed
  have r: "start_or_resume cfg now r (elapse d ?p) =
     Inr (?p\<lparr>timer_active := True, timer_remaining := time_remaining_on_pause ?p,
            is_paused := False,
            outputs := outputs ?p @
              [PlaySound start_study,
               StateChanged
                 (if current_state ?p = studying then StudyingText (cycle_count ?p)
                  else if current_state ?p = short_breaking then ShortBreakText
                  else if current_state ?p = long_breaking then LongBreakText
                  else UnknownText) (current_state ?p)]\<rparr>)"
    unfolding e start_or_resume_paused [OF p]
    using b by (intro resume_ok [OF p]) (simp_all add: tr)
  have due: "\<forall>k. timer_due (elapse k
      (?p\<lparr>timer_active := True, timer_remaining := time_remaining_on_pause ?p,
            is_paused := False,
            outputs := outputs ?p @
              [PlaySound start_study,
               StateChanged
                 (if current_state ?p = studying then StudyingText (cycle_count ?p)
                  else if current_state ?p = short_breaking then ShortBreakText
                  else if current_state ?p = long_breaking then LongBreakText
                  else UnknownText) (current_state ?p)]\<rparr>)) = (remainingTime s \<le> int k)"
    using b by (auto simp: timer_due_def elapse_def tr)
  show ?thesis
    unfolding r using assms p tr na in_range reach due
    by (simp add: pause_eq)
qed

theorem pause_resume_keeps_remaining_time_witness:
  "\<exists>s s'. session scenario_config [] [StartOrResume (clock 0) 0, Elapse 2000] = Inr s \<and>
       reachable scenario_config s \<and>
       timer_active s \<and> current_state s = studying \<and> timer_remaining s = 3000 \<and>
       remainingTime s = 3000 \<and>
       start_or_resume scenario_config (clock 9) 7 (elapse 4000 (pause s)) = Inr s' \<and>
       time_remaining_on_pause (pause s) = 3000 \<and>
       timer_active s' \<and> timer_remaining s' = 3000 \<and>
       \<not> timer_due (elapse 2999 s') \<and> timer_due (elapse 3000 s') \<and>
       current_session_duration s' = 5 \<and> timer_duration s' = Some 5"
proof -
  obtain s where s: "session scenario_config [] [StartOrResume (clock 0) 0, Elapse 2000] = Inr s"
    by (simp add: eval_defs)
  have a: "timer_active s" and st: "current_state s = studying"
    and rem: "timer_remaining s = 3000" and d: "current_session_duration s = 5"
    and td: "timer_duration s = Some 5"
    using s by (auto simp: eval_defs)
  have re: "reachable scenario_config s" using s by (rule session_reachable)
  from pause_resume_keeps_remaining_time [OF a, of scenario_config "clock 9" 7 4000] re
  obtain s' where "start_or_resume scenario_config (clock 9) 7 (elapse 4000 (pause s)) = Inr s'"
    and "time_remaining_on_pause (pause s) = remainingTime s"
    and "remainingTime s = timer_remaining s"
    and "timer_active s'" and "timer_remaining s' = remainingTime s"
    and "\<forall>k. timer_due (elapse k s') = (remainingTime s \<le> int k)"
    and "current_session_duration s' = current_session_duration s"
    and "timer_duration s' = timer_duration s"
    by blast
  with s re a st rem d td show ?thesis by auto
qed

subsection \<open>The drawn study duration\<close>




subsection \<open>The cue on resume\<close>

lemma resume_emissions:
  "is_paused s \<Longrightarrow> resume s = Inr s' \<Longrightarrow>
   \<exists>text. outputs s' = outputs s @ [PlaySound start_study, StateChanged text (current_state s)]"
  by (drule (1) resume_Inr) simp

text \<open>
  C4. The specification asks for the cue of the resumed phase. \<^verbatim>\<open>_resume\<close> looks the status
  text up by phase but requests the cue \<^verbatim>\<open>start_study\<close> whatever the phase: resuming a
  paused short break of the scenario requests \<^verbatim>\<open>start_study\<close> and not
  \<^verbatim>\<open>start_short_break\<close>.
\<close>

theorem resume_break_plays_start_study:
  "\<exists>s s'. session scenario_config []
            [StartOrResume (clock 0) 0, Elapse 5000, Timeout (clock 5) True 0, Elapse 1000, Pause]
            = Inr s \<and>
      is_paused s \<and> current_state s = short_breaking \<and>
      start_or_resume scenario_config (clock 9) 0 s = Inr s' \<and>
      outputs s' = outputs s @ [PlaySound start_study, StateChanged ShortBreakText short_breaking] \<and>
      PlaySound start_short_break \<notin> set (drop (length (outputs s)) (outputs s'))"
proof -
  obtain s where s: "session scenario_config []
            [StartOrResume (clock 0) 0, Elapse 5000, Timeout (clock 5) True 0, Elapse 1000, Pause]
            = Inr s"
    by (simp add: eval_defs)
  have p: "is_paused s" and st: "current_state s = short_breaking"
    and t: "time_remaining_on_pause s = 1000"
    using s by (auto simp: eval_defs)
  have "start_or_resume scenario_config (clock 9) 0 s = resume s"
    using p by (rule start_or_resume_paused)
  also have "resume s = Inr (s\<lparr>timer_active := True, timer_remaining := time_remaining_on_pause s,
            is_paused := False,
            outputs := outputs s @
              [PlaySound start_study,
               StateChanged
                 (if current_state s = studying then StudyingText (cycle_count s)
                  else if current_state s = short_breaking then ShortBreakText
                  else if current_state s = long_breaking then LongBreakText
                  else UnknownText) (current_state s)]\<rparr>)"
    using t by (intro resume_ok [OF p]) simp_all
  finally obtain s' where s': "start_or_resume scenario_config (clock 9) 0 s = Inr s'"
    and o: "outputs s' = outputs s @ [PlaySound start_study, StateChanged ShortBreakText short_breaking]"
    using st by simp
  with s p st show ?thesis by auto
qed

subsection \<open>Entering the long break\<close>

text \<open>
  C6. In every reachable state, an event that takes the engine from another state into
  long_breaking finds \<open>current_cycle_study_time\<close> at or above \<open>long_break_threshold\<close>
  in the state just before: the long break cannot be entered below the threshold.
\<close>

theorem long_break_entered_only_at_threshold:
  assumes "reachable cfg s" and "step cfg e s = Inr s'"
    and "current_state s \<noteq> long_breaking" and "current_state s' = long_breaking"
  shows "long_break_threshold cfg \<le> current_cycle_study_time s"
  using reachable_inv [OF assms(1)] assms(2)
proof (cases rule: step_cases)
  case (start_long now r)
  then show ?thesis by simp
next
  case (to_long now ok r)
  then show ?thesis by simp
qed (use assms(3,4) in simp_all)

theorem long_break_entered_only_at_threshold_witness:
  "\<exists>s s'. session scenario_config [] (take 8 scenario_events) = Inr s \<and>
      reachable scenario_config s \<and>
      step scenario_config (Timeout (clock 14) True 0) s = Inr s' \<and>
      current_state s \<noteq> long_breaking \<and> current_state s' = long_breaking \<and>
      current_cycle_study_time s = 10 \<and>
      long_break_threshold scenario_config \<le> current_cycle_study_time s"
proof -
  obtain s where s: "session scenario_config [] (take 8 scenario_events) = Inr s"
    by (simp add: eval_defs)
  obtain s' where s': "session scenario_config [] (take 8 scenario_events @ [Timeout (clock 14) True 0]) = Inr s'"
    by (simp add: eval_defs)
  have st: "step scenario_config (Timeout (clock 14) True 0) s = Inr s'"
    using session_snoc [OF s] s' by simp
  have r: "reachable scenario_config s" using s by (rule session_reachable)
  have a: "current_state s \<noteq> long_breaking" "current_cycle_study_time s = 10"
    using s by (auto simp: eval_defs)
  have b: "current_state s' = long_breaking"
    using s' by (auto simp: eval_defs)
  from long_break_entered_only_at_threshold [OF r st a(1) b] s r st a b
  show ?thesis by blast
qed

text \<open>
  C7. In every reachable state: an event that enters long_breaking leaves
  \<open>current_cycle_study_time\<close> at 0, so the reset happens on entry; the timeout that ends
  the long break does not change it; entering short_breaking adds the duration of the
  completed session to it, and entering studying leaves it as it was. Among the phase
  entries these are the only changes: the value moves only on entering long_breaking,
  on entering short_breaking, and when \<^verbatim>\<open>reset_cycle\<close> or \<^verbatim>\<open>reset_all\<close> stops the cycle.
\<close>

theorem cycle_time_reset_on_long_break_entry:
  assumes "reachable cfg s" and "step cfg e s = Inr s'"
  shows "(current_state s \<noteq> long_breaking \<and> current_state s' = long_breaking
            \<longrightarrow> current_cycle_study_time s' = 0) \<and>
         (current_state s = long_breaking \<and> current_state s' = long_break_finished
            \<longrightarrow> current_cycle_study_time s' = current_cycle_study_time s) \<and>
         (current_state s \<noteq> short_breaking \<and> current_state s' = short_breaking
            \<longrightarrow> current_cycle_study_time s' =
                  current_cycle_study_time s + current_session_duration s) \<and>
         (current_state s \<noteq> studying \<and> current_state s' = studying
            \<longrightarrow> current_cycle_study_time s' = current_cycle_study_time s) \<and>
         (current_cycle_study_time s' \<noteq> current_cycle_study_time s
            \<longrightarrow> (current_state s \<noteq> long_breaking \<and> current_state s' = long_breaking) \<or>
                (current_state s \<noteq> short_breaking \<and> current_state s' = short_breaking) \<or>
                e = ResetCycle \<or> e = ResetAll)"
  using reachable_inv [OF assms(1)] assms(2)
  by (cases rule: step_cases) simp_all

theorem cycle_time_reset_on_long_break_entry_witness:
  "(\<exists>s s'. reachable scenario_config s \<and>
       step scenario_config (Timeout (clock 14) True 0) s = Inr s' \<and>
       current_state s = short_breaking \<and> current_state s' = long_breaking \<and>
       current_cycle_study_time s = 10 \<and> current_cycle_study_time s' = 0) \<and>
   (\<exists>s s'. reachable scenario_config s \<and>
       step scenario_config (Timeout (clock 17) True 0) s = Inr s' \<and>
       current_state s = long_breaking \<and> current_state s' = long_break_finished \<and>
       current_cycle_study_time s = 0 \<and> current_cycle_study_time s' = 0) \<and>
   (\<exists>s s'. reachable scenario_config s \<and>
       step scenario_config (Timeout (clock 5) True 0) s = Inr s' \<and>
       current_state s = studying \<and> current_state s' = short_breaking \<and>
       current_cycle_study_time s = 0 \<and> current_session_duration s = 5 \<and>
       current_cycle_study_time s' = 5) \<and>
   (\<exists>s s'. reachable scenario_config s \<and>
       step scenario_config (Timeout (clock 7) True 0) s = Inr s' \<and>
       current_state s = short_breaking \<and> current_state s' = studying \<and>
       current_cycle_study_time s = 5 \<and> current_cycle_study_time s' = 5)"
proof -
  obtain a where a: "session scenario_config [] (take 8 scenario_events) = Inr a"
    by (simp add: eval_defs)
  obtain a' where a': "session scenario_config [] (take 8 scenario_events @ [Timeout (clock 14) True 0]) = Inr a'"
    by (simp add: eval_defs)
  have st_a: "step scenario_config (Timeout (clock 14) True 0) a = Inr a'"
    using session_snoc [OF a] a' by simp
  have r_a: "reachable scenario_config a" using a by (rule session_reachable)
  have fa: "current_state a = short_breaking" "current_cycle_study_time a = 10"
    using a by (auto simp: eval_defs)
  have fa': "current_state a' = long_breaking" using a' by (auto simp: eval_defs)
  have A: "current_cycle_study_time a' = 0"
    using cycle_time_reset_on_long_break_entry [OF r_a st_a] fa fa' by simp
  obtain b where b: "session scenario_config [] (take 10 scenario_events) = Inr b"
    by (simp add: eval_defs)
  obtain b' where b': "session scenario_config [] (take 10 scenario_events @ [Timeout (clock 17) True 0]) = Inr b'"
    by (simp add: eval_defs)
  have st_b: "step scenario_config (Timeout (clock 17) True 0) b = Inr b'"
    using session_snoc [OF b] b' by simp
  have r_b: "reachable scenario_config b" using b by (rule session_reachable)
  have fb: "current_state b = long_breaking" "current_cycle_study_time b = 0"
    using b by (auto simp: eval_defs)
  have fb': "current_state b' = long_break_finished" using b' by (auto simp: eval_defs)
  have B: "current_cycle_study_time b' = 0"
    using cycle_time_reset_on_long_break_entry [OF r_b st_b] fb fb' by simp
  obtain c where c: "session scenario_config [] (take 2 scenario_events) = Inr c"
    by (simp add: eval_defs)
  obtain c' where c': "session scenario_config [] (take 2 scenario_events @ [Timeout (clock 5) True 0]) = Inr c'"
    by (simp add: eval_defs)
  have st_c: "step scenario_config (Timeout (clock 5) True 0) c = Inr c'"
    using session_snoc [OF c] c' by simp
  have r_c: "reachable scenario_config c" using c by (rule session_reachable)
  have fc: "current_state c = studying" "current_cycle_study_time c = 0"
      "current_session_duration c = 5"
    using c by (auto simp: eval_defs)
  have fc': "current_state c' = short_breaking" using c' by (auto simp: eval_defs)
  have C: "current_cycle_study_time c' = 5"
    using cycle_time_reset_on_long_break_entry [OF r_c st_c] fc fc' by simp
  obtain d where d: "session scenario_config [] (take 4 scenario_events) = Inr d"
    by (simp add: eval_defs)
  obtain d' where d': "session scenario_config [] (take 4 scenario_events @ [Timeout (clock 7) True 0]) = Inr d'"
    by (simp add: eval_defs)
  have st_d: "step scenario_config (Timeout (clock 7) True 0) d = Inr d'"
    using session_snoc [OF d] d' by simp
  have r_d: "reachable scenario_config d" using d by (rule session_reachable)
  have fd: "current_state d = short_breaking" "current_cycle_study_time d = 5"
    using d by (auto simp: eval_defs)
  have fd': "current_state d' = studying" using d' by (auto simp: eval_defs)
  have D: "current_cycle_study_time d' = 5"
    using cycle_time_reset_on_long_break_entry [OF r_d st_d] fd fd' by simp
  show ?thesis
    using r_a st_a fa fa' A r_b st_b fb fb' B r_c st_c fc fc' C r_d st_d fd fd' D
    by blast
qed

subsection \<open>The total study time\<close>

text \<open>
  C3 as stated fails: \<^verbatim>\<open>reset_all\<close> sets \<open>total_study_time\<close> to 0. In the scenario, one
  second into the second study round the total is 5; \<^verbatim>\<open>reset_all\<close> aborts the round and
  the total is 0.
\<close>

theorem reset_all_lowers_total_counterexample:
  "observe current_state
     (session scenario_config [] (take 5 scenario_events @ [Elapse 1000])) = Some studying \<and>
   observe total_study_time
     (session scenario_config [] (take 5 scenario_events @ [Elapse 1000])) = Some 5 \<and>
   observe total_study_time
     (session scenario_config [] (take 5 scenario_events @ [Elapse 1000, ResetAll])) = Some 0"
  by (simp add: eval_defs)

text \<open>
  C3, amended. In every reachable state, a timeout that fires while studying adds exactly
  the drawn duration of the session to \<open>total_study_time\<close>; \<^verbatim>\<open>reset_all\<close> sets it to 0,
  \<^verbatim>\<open>load_persistent_time\<close> overwrites it, and every other event (pause, resume,
  \<^verbatim>\<open>reset_cycle\<close>, the passing of time, any other timeout) leaves it unchanged. With
  \<open>study_time_min \<ge> 0\<close> it therefore never decreases except by \<^verbatim>\<open>reset_all\<close> and
  \<^verbatim>\<open>load_persistent_time\<close>.
\<close>

theorem total_study_time_step:
  assumes "reachable cfg s" and "step cfg e s = Inr s'"
  shows "total_study_time s' =
           (case e of
              Timeout now ok r \<Rightarrow>
                if timer_due s \<and> current_state s = studying
                then total_study_time s + current_session_duration s
                else total_study_time s
            | ResetAll \<Rightarrow> 0
            | LoadPersistentTime t \<Rightarrow> t
            | _ \<Rightarrow> total_study_time s) \<and>
         (0 \<le> study_time_min cfg \<and> e \<noteq> ResetAll \<and> (\<forall>t. e \<noteq> LoadPersistentTime t)
            \<longrightarrow> total_study_time s \<le> total_study_time s')"
  using reachable_inv [OF assms(1)] assms(2)
  by (cases rule: step_cases) simp_all

theorem total_study_time_step_witness:
  "\<exists>s s'. reachable scenario_config s \<and>
      step scenario_config (Timeout (clock 5) True 0) s = Inr s' \<and>
      timer_due s \<and> current_state s = studying \<and>
      total_study_time s = 0 \<and> current_session_duration s = 5 \<and>
      0 \<le> study_time_min scenario_config \<and> total_study_time s' = 5 \<and>
      total_study_time s \<le> total_study_time s'"
proof -
  obtain s where s: "session scenario_config [] (take 2 scenario_events) = Inr s"
    by (simp add: eval_defs)
  obtain s' where s': "session scenario_config [] (take 2 scenario_events @ [Timeout (clock 5) True 0]) = Inr s'"
    by (simp add: eval_defs)
  have st: "step scenario_config (Timeout (clock 5) True 0) s = Inr s'"
    using session_snoc [OF s] s' by simp
  have r: "reachable scenario_config s" using s by (rule session_reachable)
  have f: "timer_due s" "current_state s = studying" "total_study_time s = 0"
      "current_session_duration s = 5"
    using s by (auto simp: eval_defs)
  have m: "0 \<le> study_time_min scenario_config" by (simp add: scenario_config_def)
  from total_study_time_step [OF r st] f m
  have "total_study_time s' = 5" "total_study_time s \<le> total_study_time s'" by simp_all
  with r st f m show ?thesis by blast
qed

subsection \<open>Which study intervals are logged\<close>

text \<open>
  C2 as stated fails: with \<open>study_time_min = study_time_max = 0\<close> the drawn duration is 0,
  the timeout fires while the state is studying, the engine moves on to the short break,
  and the guard \<^verbatim>\<open>current_session_duration > 0\<close> has kept the interval out of the log.
\<close>

theorem zero_length_interval_not_logged_counterexample:
  "observe current_state
     (session (scenario_config\<lparr>study_time_min := 0, study_time_max := 0\<rparr>) []
        [StartOrResume (clock 0) 0]) = Some studying \<and>
   observe timer_due
     (session (scenario_config\<lparr>study_time_min := 0, study_time_max := 0\<rparr>) []
        [StartOrResume (clock 0) 0]) = Some True \<and>
   observe current_state
     (session (scenario_config\<lparr>study_time_min := 0, study_time_max := 0\<rparr>) []
        [StartOrResume (clock 0) 0, Timeout (clock 0) True 0]) = Some short_breaking \<and>
   observe log_rows
     (session (scenario_config\<lparr>study_time_min := 0, study_time_max := 0\<rparr>) []
        [StartOrResume (clock 0) 0, Timeout (clock 0) True 0]) = Some []"
  by (simp add: eval_defs)

lemma closeEvent_eq:
  "snd (closeEvent cfg s) =
     s\<lparr>current_session_start_time := None, current_session_duration := 0,
       timer_active := False\<rparr>"
  "fst (closeEvent cfg s) = cfg\<lparr>cfg_total_study_time := Some (total_study_time s)\<rparr>"
  by (simp_all add: closeEvent_def stop_def timer_stop_def clear_current_session_def Let_def)

text \<open>
  C2, amended. In every reachable state an event appends a row to the log if and only if
  it is a timeout that fires while the state is studying, the drawn duration of the
  session is positive and the append to the file succeeds; the row is then the one row
  of that session. Every other event leaves the log as it is; in particular \<^verbatim>\<open>pause\<close>,
  \<^verbatim>\<open>reset_cycle\<close>, \<^verbatim>\<open>reset_all\<close> and quitting write no row and credit no time, and the
  resets and quitting drop the session in progress and stop its timer.
\<close>

theorem log_row_iff_positive_completion:
  assumes "reachable cfg s" and "step cfg e s = Inr s'"
  shows "(\<forall>now r. e = Timeout now True r \<and> timer_due s \<and> current_state s = studying \<and>
              0 < current_session_duration s
            \<longrightarrow> (\<exists>st. current_session_start_time s = Some st \<and>
                   log_rows s' = log_rows s @ [make_row st now (current_session_duration s)])) \<and>
         (\<not> (\<exists>now r. e = Timeout now True r \<and> timer_due s \<and> current_state s = studying \<and>
               0 < current_session_duration s)
            \<longrightarrow> log_rows s' = log_rows s) \<and>
         (e = Pause \<or> e = ResetCycle \<longrightarrow> total_study_time s' = total_study_time s) \<and>
         (e = ResetAll \<longrightarrow> total_study_time s' = 0) \<and>
         (e = ResetCycle \<or> e = ResetAll
            \<longrightarrow> current_session_start_time s' = None \<and> \<not> timer_active s') \<and>
         log_rows (snd (closeEvent cfg s)) = log_rows s \<and>
         total_study_time (snd (closeEvent cfg s)) = total_study_time s \<and>
         current_session_start_time (snd (closeEvent cfg s)) = None \<and>
         \<not> timer_active (snd (closeEvent cfg s))"
proof -
  have q: "log_rows (snd (closeEvent cfg s)) = log_rows s \<and>
         total_study_time (snd (closeEvent cfg s)) = total_study_time s \<and>
         current_session_start_time (snd (closeEvent cfg s)) = None \<and>
         \<not> timer_active (snd (closeEvent cfg s))"
    by (simp add: closeEvent_eq)
  have "(\<forall>now r. e = Timeout now True r \<and> timer_due s \<and> current_state s = studying \<and>
              0 < current_session_duration s
            \<longrightarrow> (\<exists>st. current_session_start_time s = Some st \<and>
                   log_rows s' = log_rows s @ [make_row st now (current_session_duration s)])) \<and>
         (\<not> (\<exists>now r. e = Timeout now True r \<and> timer_due s \<and> current_state s = studying \<and>
               0 < current_session_duration s)
            \<longrightarrow> log_rows s' = log_rows s) \<and>
         (e = Pause \<or> e = ResetCycle \<longrightarrow> total_study_time s' = total_study_time s) \<and>
         (e = ResetAll \<longrightarrow> total_study_time s' = 0) \<and>
         (e = ResetCycle \<or> e = ResetAll
            \<longrightarrow> current_session_start_time s' = None \<and> \<not> timer_active s')"
    using reachable_inv [OF assms(1)] assms(2)
  proof (cases rule: step_cases)
    case (study_done now ok r st)
    then show ?thesis by (cases ok) simp_all
  qed simp_all
  with q show ?thesis by simp
qed

lemma make_row_scenario:
  "make_row (clock 0) (clock 5) 5 =
     \<lparr> row_start_time = ''2024-01-01 09:00:00'', row_end_time = ''2024-01-01 09:00:05'',
       row_net_duration_minutes = 2 / 25, row_date = ''2024-01-01'',
       row_day_of_week = ''Monday'' \<rparr>"
proof -
  have "round2 (of_int 5 / 60) = 2 / 25" by code_simp
  then show ?thesis
    by (simp add: make_row_def clock_def strftime_datetime_def strftime_date_def
          strftime_weekday_def weekday_def toordinal_def days_before_year_def
          days_before_month_def is_leap_def pad2_def pad4_def digit_def)
qed

theorem log_row_iff_positive_completion_witness:
  "(\<exists>s s'. reachable scenario_config s \<and>
       step scenario_config (Timeout (clock 5) True 0) s = Inr s' \<and>
       timer_due s \<and> current_state s = studying \<and> 0 < current_session_duration s \<and>
       current_session_start_time s = Some (clock 0) \<and> log_rows s = [] \<and>
       log_rows s' = [make_row (clock 0) (clock 5) 5] \<and>
       log_rows (snd (closeEvent scenario_config s)) = [] \<and>
       total_study_time (snd (closeEvent scenario_config s)) = 0) \<and>
   (\<exists>s s'. reachable scenario_config s \<and> step scenario_config ResetCycle s = Inr s' \<and>
       current_state s = studying \<and> timer_active s \<and>
       log_rows s' = log_rows s \<and> total_study_time s' = total_study_time s \<and>
       current_session_start_time s' = None \<and> \<not> timer_active s') \<and>
   (\<exists>s s'. reachable scenario_config s \<and> step scenario_config ResetAll s = Inr s' \<and>
       current_state s = studying \<and> timer_active s \<and>
       log_rows s' = log_rows s \<and> total_study_time s' = 0 \<and>
       current_session_start_time s' = None \<and> \<not> timer_active s') \<and>
   (\<exists>s s'. reachable scenario_config s \<and> step scenario_config Pause s = Inr s' \<and>
       current_state s = studying \<and> timer_active s \<and>
       log_rows s' = log_rows s \<and> total_study_time s' = total_study_time s)"
proof -
  obtain a where a: "session scenario_config [] (take 2 scenario_events) = Inr a"
    by (simp add: eval_defs)
  obtain a' where a': "session scenario_config [] ((take 2 scenario_events) @ [Timeout (clock 5) True 0]) = Inr a'"
    by (simp add: eval_defs)
  have st_a: "step scenario_config (Timeout (clock 5) True 0) a = Inr a'"
    using session_snoc [OF a] a' by simp
  have r_a: "reachable scenario_config a" using a by (rule session_reachable)
  have fa: "timer_due a" "current_state a = studying" "0 < current_session_duration a"
      "current_session_start_time a = Some (clock 0)" "log_rows a = []"
      "current_session_duration a = 5" "total_study_time a = 0"
    using a by (auto simp: eval_defs)
  from log_row_iff_positive_completion [OF r_a st_a] fa
  have A: "log_rows a' = [make_row (clock 0) (clock 5) 5]"
      "log_rows (snd (closeEvent scenario_config a)) = []"
      "total_study_time (snd (closeEvent scenario_config a)) = 0"
    by auto
  obtain b where b: "session scenario_config [] (take 5 scenario_events @ [Elapse 1000]) = Inr b"
    by (simp add: eval_defs)
  obtain b' where b': "session scenario_config [] ((take 5 scenario_events @ [Elapse 1000]) @ [ResetCycle]) = Inr b'"
    by (simp add: eval_defs)
  have st_b: "step scenario_config (ResetCycle) b = Inr b'"
    using session_snoc [OF b] b' by simp
  have r_b: "reachable scenario_config b" using b by (rule session_reachable)
  have fb: "current_state b = studying" "timer_active b"
    using b by (auto simp: eval_defs)
  from log_row_iff_positive_completion [OF r_b st_b]
  have B: "log_rows b' = log_rows b" "total_study_time b' = total_study_time b"
      "current_session_start_time b' = None" "\<not> timer_active b'"
    by auto
  obtain c where c: "session scenario_config [] (take 5 scenario_events @ [Elapse 1000]) = Inr c"
    by (simp add: eval_defs)
  obtain c' where c': "session scenario_config [] ((take 5 scenario_events @ [Elapse 1000]) @ [ResetAll]) = Inr c'"
    by (simp add: eval_defs)
  have st_c: "step scenario_config (ResetAll) c = Inr c'"
    using session_snoc [OF c] c' by simp
  have r_c: "reachable scenario_config c" using c by (rule session_reachable)
  have fc: "current_state c = studying" "timer_active c"
    using c by (auto simp: eval_defs)
  from log_row_iff_positive_completion [OF r_c st_c]
  have C: "log_rows c' = log_rows c" "total_study_time c' = 0"
      "current_session_start_time c' = None" "\<not> timer_active c'"
    by auto
  obtain d where d: "session scenario_config [] (take 5 scenario_events @ [Elapse 1000]) = Inr d"
    by (simp add: eval_defs)
  obtain d' where d': "session scenario_config [] ((take 5 scenario_events @ [Elapse 1000]) @ [Pause]) = Inr d'"
    by (simp add: eval_defs)
  have st_d: "step scenario_config (Pause) d = Inr d'"
    using session_snoc [OF d] d' by simp
  have r_d: "reachable scenario_config d" using d by (rule session_reachable)
  have fd: "current_state d = studying" "timer_active d"
    using d by (auto simp: eval_defs)
  from log_row_iff_positive_completion [OF r_d st_d]
  have D: "log_rows d' = log_rows d" "total_study_time d' = total_study_time d"
    by auto
  show ?thesis
    using r_a st_a fa A r_b st_b fb B r_c st_c fc C r_d st_d fd D
    by blast
qed

subsection \<open>The session logger\<close>

lemma round2_minutes: "round2 (of_int n / 60) = of_int ((10 * n + 3) div 6) / 100"
proof -
  define m where "m = 5 * n"
  define q where "q = m div 3"
  define k where "k = m mod 3"
  have m: "m = 3 * q + k" by (simp add: q_def k_def)
  have k: "k = 0 \<or> k = 1 \<or> k = 2" unfolding k_def by presburger
  have y: "(of_int n / 60 :: rat) * 100 = of_int q + of_int k / 3"
  proof -
    have "(of_int n / 60 :: rat) * 100 = of_int m / 3" by (simp add: m_def)
    also have "\<dots> = of_int q + of_int k / 3" by (simp add: m)
    finally show ?thesis .
  qed
  have fl: "\<lfloor>(of_int q + of_int k / 3 :: rat)\<rfloor> = q"
    using k by (auto simp: floor_unique)
  have r: "(10 * n + 3) div 6 = (if k = 2 then q + 1 else q)"
    using k m unfolding m_def by auto
  show ?thesis
    unfolding round2_def Let_def y fl r using k by auto
qed

lemma round2_minutes_close: "\<bar>round2 (of_int n / 60) - of_int n / 60\<bar> < 1 / 200"
proof -
  define q where "q = (10 * n + 3) div 6"
  define m where "m = (10 * n + 3) mod 6"
  have e: "6 * q + m = 10 * n + 3" by (simp add: q_def m_def)
  have "m = 1 \<or> m = 3 \<or> m = 5" unfolding m_def by presburger
  with e have b: "- 2 \<le> 6 * q - 10 * n" "6 * q - 10 * n \<le> 2" by auto
  have eq: "round2 (of_int n / 60) - of_int n / 60 = (of_int (6 * q - 10 * n) / 600 :: rat)"
    by (simp add: round2_minutes q_def field_simps)
  have bd: "\<bar>(of_int (6 * q - 10 * n) / 600 :: rat)\<bar> < 1 / 200"
  proof -
    have "\<bar>(of_int (6 * q - 10 * n) :: rat)\<bar> \<le> 2"
      using b by (metis abs_le_iff of_int_abs of_int_le_iff of_int_numeral abs_leI minus_le_iff add.inverse_inverse)
    then show ?thesis by (simp add: abs_divide)
  qed
  show ?thesis unfolding eq by (rule bd)
qed

text \<open>
  C9 as stated fails: with both times present and a positive duration, \<^verbatim>\<open>log_session\<close>
  appends nothing when opening the file raises \<^verbatim>\<open>IOError\<close>; it prints the error and
  returns.
\<close>

theorem log_session_write_failure_counterexample:
  "log_session False (Some (clock 0)) (Some (clock 5)) 5 [] =
     ([], [Print ''Error: Failed to write log''])"
  by (simp add: log_session_eq)

text \<open>
  C9, amended. \<^verbatim>\<open>log_session\<close> never raises. It appends nothing and prints nothing when
  the start time or the end time is absent or the duration is not positive. Otherwise,
  if the append to the file succeeds, it appends exactly one row: the minutes are the
  seconds divided by 60 and rounded to two decimals (a multiple of 1/100 less than 1/200
  away from the quotient), the date and the weekday are those of the start time, and
  the two time columns are the formatted start and end times. If the append fails, the
  file is unchanged and the error is printed.
\<close>

theorem log_session_contract:
  "(start_time = None \<or> end_time = None \<or> n \<le> 0
      \<longrightarrow> log_session ok start_time end_time n rows = (rows, [])) \<and>
   (\<forall>st en. start_time = Some st \<and> end_time = Some en \<and> 0 < n \<longrightarrow>
      (ok \<longrightarrow> (\<exists>row. log_session ok start_time end_time n rows = (rows @ [row], []) \<and>
          row_net_duration_minutes row = round2 (of_int n / 60) \<and>
          row_net_duration_minutes row = of_int ((10 * n + 3) div 6) / 100 \<and>
          \<bar>row_net_duration_minutes row - of_int n / 60\<bar> < 1 / 200 \<and>
          row_date row = strftime_date st \<and>
          row_day_of_week row = strftime_weekday st \<and>
          row_start_time row = strftime_datetime st \<and>
          row_end_time row = strftime_datetime en)) \<and>
      (\<not> ok \<longrightarrow> log_session ok start_time end_time n rows =
                   (rows, [Print ''Error: Failed to write log''])))"
proof (intro conjI allI impI)
  assume "start_time = None \<or> end_time = None \<or> n \<le> 0"
  then show "log_session ok start_time end_time n rows = (rows, [])"
    by (auto simp: log_session_eq split: option.splits)
next
  fix st en
  assume h: "start_time = Some st \<and> end_time = Some en \<and> 0 < n" and ok
  let ?row = "make_row st en n"
  have "log_session ok start_time end_time n rows = (rows @ [?row], [])"
    using h \<open>ok\<close> by (simp add: log_session_eq)
  moreover have "row_net_duration_minutes ?row = round2 (of_int n / 60)"
    by (simp add: make_row_def)
  moreover have "row_net_duration_minutes ?row = of_int ((10 * n + 3) div 6) / 100"
    by (simp add: make_row_def round2_minutes)
  moreover have "\<bar>row_net_duration_minutes ?row - of_int n / 60\<bar> < 1 / 200"
    using round2_minutes_close [of n] by (simp add: make_row_def)
  moreover have "row_date ?row = strftime_date st" "row_day_of_week ?row = strftime_weekday st"
    "row_start_time ?row = strftime_datetime st" "row_end_time ?row = strftime_datetime en"
    by (simp_all add: make_row_def)
  ultimately show "\<exists>row. log_session ok start_time end_time n rows = (rows @ [row], []) \<and>
          row_net_duration_minutes row = round2 (of_int n / 60) \<and>
          row_net_duration_minutes row = of_int ((10 * n + 3) div 6) / 100 \<and>
          \<bar>row_net_duration_minutes row - of_int n / 60\<bar> < 1 / 200 \<and>
          row_date row = strftime_date st \<and>
          row_day_of_week row = strftime_weekday st \<and>
          row_start_time row = strftime_datetime st \<and>
          row_end_time row = strftime_datetime en"
    by blast
next
  fix st en
  assume h: "start_time = Some st \<and> end_time = Some en \<and> 0 < n" and "\<not> ok"
  then show "log_session ok start_time end_time n rows =
                   (rows, [Print ''Error: Failed to write log''])"
    by (simp add: log_session_eq)
qed

theorem log_session_contract_witness:
  "log_session True (Some (clock 0)) (Some (clock 5)) 0 [] = ([], []) \<and>
   log_session True None (Some (clock 5)) 5 [] = ([], []) \<and>
   log_session True (Some (clock 0)) None 5 [] = ([], []) \<and>
   (\<exists>row. log_session True (Some (clock 0)) (Some (clock 5)) 5 [] = ([row], []) \<and>
      row_net_duration_minutes row = 2 / 25 \<and>
      row_date row = ''2024-01-01'' \<and> row_day_of_week row = ''Monday'' \<and>
      row_start_time row = ''2024-01-01 09:00:00'' \<and>
      row_end_time row = ''2024-01-01 09:00:05'') \<and>
   log_session False (Some (clock 0)) (Some (clock 5)) 5 [] =
     ([], [Print ''Error: Failed to write log''])"
proof -
  have a: "log_session True (Some (clock 0)) (Some (clock 5)) 0 [] = ([], [])"
    using log_session_contract [of "Some (clock 0)" "Some (clock 5)" 0 True "[]"] by simp
  have b: "log_session True None (Some (clock 5)) 5 [] = ([], [])"
    using log_session_contract [of None "Some (clock 5)" 5 True "[]"] by simp
  have c: "log_session True (Some (clock 0)) None 5 [] = ([], [])"
    using log_session_contract [of "Some (clock 0)" None 5 True "[]"] by simp
  from log_session_contract [of "Some (clock 0)" "Some (clock 5)" 5 True "[]"]
  obtain row where r: "log_session True (Some (clock 0)) (Some (clock 5)) 5 [] = ([row], [])"
    and m: "row_net_duration_minutes row = of_int ((10 * 5 + 3) div 6) / 100"
    and d: "row_date row = strftime_date (clock 0)"
      "row_day_of_week row = strftime_weekday (clock 0)"
      "row_start_time row = strftime_datetime (clock 0)"
      "row_end_time row = strftime_datetime (clock 5)"
    by auto
  have m': "row_net_duration_minutes row = 2 / 25" using m by simp
  have d': "row_date row = ''2024-01-01''" "row_day_of_week row = ''Monday''"
      "row_start_time row = ''2024-01-01 09:00:00''"
      "row_end_time row = ''2024-01-01 09:00:05''"
    using d
    by (simp_all add: clock_def strftime_datetime_def strftime_date_def
          strftime_weekday_def weekday_def toordinal_def days_before_year_def
          days_before_month_def is_leap_def pad2_def pad4_def digit_def)
  have e: "log_session False (Some (clock 0)) (Some (clock 5)) 5 [] =
     ([], [Print ''Error: Failed to write log''])"
    using log_session_contract [of "Some (clock 0)" "Some (clock 5)" 5 False "[]"] by simp
  from a b c r m' d' e show ?thesis by blast
qed

subsection \<open>The scenario\<close>

text \<open>
  C1 as stated fails: when the second study interval completes, the engine enters
  short_breaking again (with \<open>current_cycle_study_time = 10\<close>), not long_breaking; the
  threshold is looked at only when a short break ends. One timeout later the state is
  long_breaking, not long_break_finished.
\<close>

theorem second_study_round_ends_in_short_break_counterexample:
  "observe current_state (session scenario_config [] (take 5 scenario_events)) = Some studying \<and>
   observe current_state (session scenario_config [] (take 7 scenario_events))
     = Some short_breaking \<and>
   observe current_state (session scenario_config [] (take 7 scenario_events))
     \<noteq> Some long_breaking \<and>
   observe current_cycle_study_time (session scenario_config [] (take 7 scenario_events))
     = Some 10 \<and>
   observe current_state (session scenario_config [] (take 9 scenario_events))
     \<noteq> Some long_break_finished"
  by (simp add: eval_defs)

text \<open>
  C1, amended. With study 5 s, short break 2 s, threshold 8 s and long break 3 s, from
  stopped and with every timeout firing when its delay has passed, the engine is in:
  studying (5000 ms); short_breaking (2000 ms) with one row logged, 0.08 minutes, and
  \<open>current_cycle_study_time = 5\<close>; studying again (5000 ms); short_breaking a second time
  (2000 ms) with a second row and \<open>current_cycle_study_time = 10\<close>; long_breaking
  (3000 ms) with \<open>current_cycle_study_time\<close> back at 0; long_break_finished.
  \<open>total_study_time\<close> is 10 at the end.
\<close>

theorem scenario_trace:
  "observe view (session scenario_config [] []) = Some (stopped, False, 0, 0, 0, 0) \<and>
   observe view (session scenario_config [] (take 1 scenario_events))
     = Some (studying, True, 5000, 0, 0, 0) \<and>
   observe view (session scenario_config [] (take 3 scenario_events))
     = Some (short_breaking, True, 2000, 5, 5, 1) \<and>
   observe log_rows (session scenario_config [] (take 3 scenario_events))
     = Some [\<lparr> row_start_time = ''2024-01-01 09:00:00'', row_end_time = ''2024-01-01 09:00:05'',
              row_net_duration_minutes = 2 / 25, row_date = ''2024-01-01'',
              row_day_of_week = ''Monday'' \<rparr>] \<and>
   observe view (session scenario_config [] (take 5 scenario_events))
     = Some (studying, True, 5000, 5, 5, 1) \<and>
   observe view (session scenario_config [] (take 7 scenario_events))
     = Some (short_breaking, True, 2000, 10, 10, 2) \<and>
   observe view (session scenario_config [] (take 9 scenario_events))
     = Some (long_breaking, True, 3000, 0, 10, 2) \<and>
   observe view (session scenario_config [] (take 11 scenario_events))
     = Some (long_break_finished, False, 0, 0, 10, 2)"
proof -
  have "observe log_rows (session scenario_config [] (take 3 scenario_events))
     = Some [make_row (clock 0) (clock 5) 5]"
    by (simp add: eval_defs clock_def)
  then have r: "observe log_rows (session scenario_config [] (take 3 scenario_events))
     = Some [\<lparr> row_start_time = ''2024-01-01 09:00:00'', row_end_time = ''2024-01-01 09:00:05'',
              row_net_duration_minutes = 2 / 25, row_date = ''2024-01-01'',
              row_day_of_week = ''Monday'' \<rparr>]"
    by (simp only: make_row_scenario)
  have v: "observe view (session scenario_config [] []) = Some (stopped, False, 0, 0, 0, 0)"
    "observe view (session scenario_config [] (take 1 scenario_events))
     = Some (studying, True, 5000, 0, 0, 0)"
    "observe view (session scenario_config [] (take 3 scenario_events))
     = Some (short_breaking, True, 2000, 5, 5, 1)"
    "observe view (session scenario_config [] (take 5 scenario_events))
     = Some (studying, True, 5000, 5, 5, 1)"
    "observe view (session scenario_config [] (take 7 scenario_events))
     = Some (short_breaking, True, 2000, 10, 10, 2)"
    "observe view (session scenario_config [] (take 9 scenario_events))
     = Some (long_breaking, True, 3000, 0, 10, 2)"
    "observe view (session scenario_config [] (take 11 scenario_events))
     = Some (long_break_finished, False, 0, 0, 10, 2)"
    by (simp_all add: eval_defs view_def)
  from r v show ?thesis by (intro conjI)
qed

end
